theory Spec2Isabelle
  imports Main
begin

section \<open>JavaScript values and string primitives\<close>

text \<open>
  The program is TypeScript running on Node. The values it receives from the request body
  and from \<^verbatim>\<open>JSON.parse\<close> are JSON values; the analysis attached to a result is such
  a value, dynamically shaped (\<^verbatim>\<open>analysis: parsedAnalysis\<close>). A number is kept as the
  decimal literal it was written as: mantissa \<open>m\<close> and exponent \<open>e\<close> stand for
  \<open>m * 10 ^ e\<close>. An object is the list of its own properties.
\<close>

type_synonym number = "int \<times> int"

datatype json =
    JNull
  | JBool bool
  | JNum number
  | JStr string
  | JArr "json list"
  | JObj "(string \<times> json) list"

text \<open>
  A string of the program is kept as the bytes of its UTF-8 form. The string primitives of
  the language that the program calls: \<^verbatim>\<open>startsWith\<close>, \<^verbatim>\<open>endsWith\<close> and
  \<^verbatim>\<open>includes\<close> compare bytes, which is the comparison of the characters;
  \<^verbatim>\<open>trim\<close> strips the white space and the line terminators of the language from both
  ends; \<^verbatim>\<open>toLowerCase\<close> is written out for the letters A to Z.
\<close>

definition startsWith :: "string \<Rightarrow> string \<Rightarrow> bool" where
  "startsWith s p = (take (length p) s = p)"

definition endsWith :: "string \<Rightarrow> string \<Rightarrow> bool" where
  "endsWith s p = (length p \<le> length s \<and> drop (length s - length p) s = p)"

fun includes_str :: "string \<Rightarrow> string \<Rightarrow> bool" where
  "includes_str [] k = (k = [])"
| "includes_str (c # cs) k = (startsWith (c # cs) k \<or> includes_str cs k)"

text \<open>
  What \<^verbatim>\<open>trim\<close> strips, each character as its bytes: TAB, LF, VT, FF, CR, SPACE, U+00A0,
  U+1680, U+2000 to U+200A, U+2028, U+2029, U+202F, U+205F, U+3000 and U+FEFF.
\<close>

definition whiteSpace :: "string list" where
  "whiteSpace =
     map (\<lambda>b. [b]) [CHR 0x09, CHR 0x0A, CHR 0x0B, CHR 0x0C, CHR 0x0D, CHR 0x20]
     @ [[CHR 0xC2, CHR 0xA0], [CHR 0xE1, CHR 0x9A, CHR 0x80]]
     @ map (\<lambda>b. [CHR 0xE2, CHR 0x80, b])
         [CHR 0x80, CHR 0x81, CHR 0x82, CHR 0x83, CHR 0x84, CHR 0x85, CHR 0x86, CHR 0x87,
          CHR 0x88, CHR 0x89, CHR 0x8A, CHR 0xA8, CHR 0xA9, CHR 0xAF]
     @ [[CHR 0xE2, CHR 0x81, CHR 0x9F], [CHR 0xE3, CHR 0x80, CHR 0x80],
        [CHR 0xEF, CHR 0xBB, CHR 0xBF]]"

fun stripLeading :: "string list \<Rightarrow> string \<Rightarrow> string" where
  "stripLeading ws [] = []"
| "stripLeading ws (c # cs) =
     (case find (\<lambda>w. w \<noteq> [] \<and> startsWith (c # cs) w) ws of
        None \<Rightarrow> c # cs
      | Some w \<Rightarrow> stripLeading ws (drop (length w - 1) cs))"

definition trim :: "string \<Rightarrow> string" where
  "trim s = rev (stripLeading (map rev whiteSpace) (rev (stripLeading whiteSpace s)))"

definition lowerChar :: "char \<Rightarrow> char" where
  "lowerChar c =
     (case map_of (zip ''ABCDEFGHIJKLMNOPQRSTUVWXYZ'' ''abcdefghijklmnopqrstuvwxyz'') c of
        Some d \<Rightarrow> d
      | None \<Rightarrow> c)"

definition toLowerCase :: "string \<Rightarrow> string" where
  "toLowerCase s = map lowerChar s"

text \<open>
  Reading a property of a parsed value that is not \<^verbatim>\<open>null\<close>: own properties of an
  object; every other value has none of the names the program reads, apart from
  \<^verbatim>\<open>length\<close> on strings and arrays.
\<close>

fun getProp :: "json \<Rightarrow> string \<Rightarrow> json option" where
  "getProp (JObj kvs) k = map_of kvs k"
| "getProp (JStr s) k = (if k = ''length'' then Some (JNum (int (length s), 0)) else None)"
| "getProp (JArr xs) k = (if k = ''length'' then Some (JNum (int (length xs), 0)) else None)"
| "getProp v k = None"

text \<open>Truthiness of a value that may be \<^verbatim>\<open>undefined\<close> (\<open>None\<close>).\<close>

fun truthy :: "json option \<Rightarrow> bool" where
  "truthy None = False"
| "truthy (Some JNull) = False"
| "truthy (Some (JBool b)) = b"
| "truthy (Some (JNum (m, e))) = (m \<noteq> 0)"
| "truthy (Some (JStr s)) = (s \<noteq> [])"
| "truthy (Some (JArr xs)) = True"
| "truthy (Some (JObj kvs)) = True"

text \<open>
  A template literal converts the value it interpolates to a string. For a parsed value
  the conversion throws exactly when it meets an object with an own property
  \<^verbatim>\<open>toString\<close> (which is then not a function); an array converts its elements.
\<close>

fun toStringThrows :: "json \<Rightarrow> bool" where
  "toStringThrows (JObj kvs) = (map_of kvs ''toString'' \<noteq> None)"
| "toStringThrows (JArr xs) = list_ex toStringThrows xs"
| "toStringThrows v = False"

section \<open>A model of the JSON parser\<close>

text \<open>
  \<^verbatim>\<open>JSON.parse\<close> is a primitive of the language. The program is verified for any
  parser (the field \<open>parseJSON\<close> of the environment below); the evaluations at concrete
  inputs use this one, written after the JSON grammar: white space is SPACE, TAB, LF and
  CR; a string has no control character and the escapes \<^verbatim>\<open>" \\ / b f n r t uXXXX\<close>
  (a code unit given by an escape is written as the bytes of its UTF-8 form); a number is
  \<^verbatim>\<open>-?(0|[1-9][0-9]*)(.[0-9]+)?([eE][+-]?[0-9]+)?\<close>; the later of two members with one
  key wins. The recursion runs on fuel; no call chain is longer than twice the length of
  the text plus two.
\<close>

definition isJsonSpace :: "char \<Rightarrow> bool" where
  "isJsonSpace c = (c \<in> set [CHR 0x20, CHR 0x09, CHR 0x0A, CHR 0x0D])"

definition skipWs :: "string \<Rightarrow> string" where
  "skipWs s = dropWhile isJsonSpace s"

definition isDigit :: "char \<Rightarrow> bool" where
  "isDigit c = (c \<in> set ''0123456789'')"

definition hexVal :: "char \<Rightarrow> nat option" where
  "hexVal c = map_of (zip ''0123456789abcdefABCDEF''
                          [0, 1, 2, 3, 4, 5, 6, 7, 8, 9, 10, 11, 12, 13, 14, 15, 10, 11, 12, 13, 14, 15]) c"

definition byte :: "nat \<Rightarrow> char" where
  "byte n = Char (odd n) (odd (n div 2)) (odd (n div 4)) (odd (n div 8))
                 (odd (n div 16)) (odd (n div 32)) (odd (n div 64)) (odd (n div 128))"

definition utf8 :: "nat \<Rightarrow> string" where
  "utf8 n =
     (if n < 128 then [byte n]
      else if n < 2048 then [byte (192 + n div 64), byte (128 + n mod 64)]
      else [byte (224 + n div 4096), byte (128 + (n div 64) mod 64), byte (128 + n mod 64)])"

definition hex4 :: "string \<Rightarrow> nat option" where
  "hex4 cs =
     (case map hexVal (take 4 cs) of
        [Some a, Some b, Some c, Some d] \<Rightarrow> Some (((a * 16 + b) * 16 + c) * 16 + d)
      | _ \<Rightarrow> None)"

definition unescape :: "char \<Rightarrow> char option" where
  "unescape e =
     map_of [(CHR 0x22, CHR 0x22), (CHR 0x5C, CHR 0x5C), (CHR ''/'', CHR ''/''),
             (CHR ''b'', CHR 0x08), (CHR ''f'', CHR 0x0C), (CHR ''n'', CHR 0x0A),
             (CHR ''r'', CHR 0x0D), (CHR ''t'', CHR 0x09)] e"

fun parseChars :: "string \<Rightarrow> (string \<times> string) option" where
  "parseChars [] = None"
| "parseChars (c # cs) =
     (if c = CHR 0x22 then Some ([], cs)
      else if c = CHR 0x5C then
        (case cs of
           [] \<Rightarrow> None
         | e # cs' \<Rightarrow>
             if e = CHR ''u'' then
               (case hex4 cs' of
                  Some n \<Rightarrow> map_option (\<lambda>(s, r). (utf8 n @ s, r)) (parseChars (drop 4 cs'))
                | None \<Rightarrow> None)
             else
               (case unescape e of
                  Some d \<Rightarrow> map_option (\<lambda>(s, r). (d # s, r)) (parseChars cs')
                | None \<Rightarrow> None))
      else if (of_char c :: nat) < 32 then None
      else map_option (\<lambda>(s, r). (c # s, r)) (parseChars cs))"

definition digitsVal :: "string \<Rightarrow> int" where
  "digitsVal ds = foldl (\<lambda>a d. 10 * a + (case hexVal d of Some v \<Rightarrow> int v | None \<Rightarrow> 0)) 0 ds"

definition parseNumber :: "string \<Rightarrow> (number \<times> string) option" where
  "parseNumber cs =
     (let neg = (cs \<noteq> [] \<and> hd cs = CHR ''-'');
          cs1 = (if neg then tl cs else cs);
          ds = (if cs1 \<noteq> [] \<and> hd cs1 = CHR ''0'' then ''0'' else takeWhile isDigit cs1);
          cs2 = drop (length ds) cs1;
          hasFrac = (cs2 \<noteq> [] \<and> hd cs2 = CHR ''.'');
          fs = (if hasFrac then takeWhile isDigit (tl cs2) else []);
          cs3 = (if hasFrac then drop (length fs) (tl cs2) else cs2);
          hasExp = (cs3 \<noteq> [] \<and> (hd cs3 = CHR ''e'' \<or> hd cs3 = CHR ''E''));
          cs4 = (if hasExp then tl cs3 else cs3);
          eneg = (hasExp \<and> cs4 \<noteq> [] \<and> hd cs4 = CHR ''-'');
          cs5 = (if hasExp \<and> cs4 \<noteq> [] \<and> (hd cs4 = CHR ''-'' \<or> hd cs4 = CHR ''+'')
                 then tl cs4 else cs4);
          es = (if hasExp then takeWhile isDigit cs5 else []);
          cs6 = drop (length es) cs5;
          m = digitsVal (ds @ fs);
          e = (if eneg then - digitsVal es else digitsVal es) - int (length fs)
      in if ds = [] \<or> (hasFrac \<and> fs = []) \<or> (hasExp \<and> es = []) then None
         else Some ((if neg then - m else m, e), cs6))"

fun setProp :: "string \<Rightarrow> json \<Rightarrow> (string \<times> json) list \<Rightarrow> (string \<times> json) list" where
  "setProp k v [] = [(k, v)]"
| "setProp k v ((k', v') # kvs) = (if k = k' then (k, v) # kvs else (k', v') # setProp k v kvs)"

fun parseValue :: "nat \<Rightarrow> string \<Rightarrow> (json \<times> string) option"
and parseElements :: "nat \<Rightarrow> string \<Rightarrow> (json list \<times> string) option"
and parseMembers :: "nat \<Rightarrow> string \<Rightarrow> ((string \<times> json) list \<times> string) option" where
  "parseValue 0 cs = None"
| "parseValue (Suc n) cs =
     (case skipWs cs of
        [] \<Rightarrow> None
      | c # r \<Rightarrow>
          if c = CHR ''{'' then
            (if skipWs r \<noteq> [] \<and> hd (skipWs r) = CHR ''}'' then Some (JObj [], tl (skipWs r))
             else map_option (\<lambda>(kvs, r'). (JObj (foldl (\<lambda>ps (k, v). setProp k v ps) [] kvs), r'))
                    (parseMembers n r))
          else if c = CHR ''['' then
            (if skipWs r \<noteq> [] \<and> hd (skipWs r) = CHR '']'' then Some (JArr [], tl (skipWs r))
             else map_option (\<lambda>(vs, r'). (JArr vs, r')) (parseElements n r))
          else if c = CHR 0x22 then map_option (\<lambda>(s, r'). (JStr s, r')) (parseChars r)
          else if startsWith (c # r) ''true'' then Some (JBool True, drop 4 (c # r))
          else if startsWith (c # r) ''false'' then Some (JBool False, drop 5 (c # r))
          else if startsWith (c # r) ''null'' then Some (JNull, drop 4 (c # r))
          else map_option (\<lambda>(x, r'). (JNum x, r')) (parseNumber (c # r)))"
| "parseElements 0 cs = None"
| "parseElements (Suc n) cs =
     (case parseValue n cs of
        None \<Rightarrow> None
      | Some (v, r) \<Rightarrow>
          (case skipWs r of
             [] \<Rightarrow> None
           | c # r' \<Rightarrow>
               if c = CHR '','' then map_option (\<lambda>(vs, r''). (v # vs, r'')) (parseElements n r')
               else if c = CHR '']'' then Some ([v], r')
               else None))"
| "parseMembers 0 cs = None"
| "parseMembers (Suc n) cs =
     (case skipWs cs of
        [] \<Rightarrow> None
      | q # r \<Rightarrow>
          if q \<noteq> CHR 0x22 then None
          else
            (case parseChars r of
               None \<Rightarrow> None
             | Some (k, r1) \<Rightarrow>
                 (case skipWs r1 of
                    [] \<Rightarrow> None
                  | c # r2 \<Rightarrow>
                      if c \<noteq> CHR '':'' then None
                      else
                        (case parseValue n r2 of
                           None \<Rightarrow> None
                         | Some (v, r3) \<Rightarrow>
                             (case skipWs r3 of
                                [] \<Rightarrow> None
                              | d # r4 \<Rightarrow>
                                  if d = CHR '','' then
                                    map_option (\<lambda>(kvs, r5). ((k, v) # kvs, r5)) (parseMembers n r4)
                                  else if d = CHR ''}'' then Some ([(k, v)], r4)
                                  else None)))))"

definition JSON_parse :: "string \<Rightarrow> json option" where
  "JSON_parse s =
     (case parseValue (2 * length s + 2) s of
        Some (v, r) \<Rightarrow> if skipWs r = [] then Some v else None
      | None \<Rightarrow> None)"

section \<open>The external collaborators\<close>

text \<open>
  What the program calls and does not define: the language model behind
  \<^verbatim>\<open>new ChatPrompt({instructions, model}).send(text)\<close>, \<^verbatim>\<open>JSON.parse\<close>, the URL
  check of the schema library (\<^verbatim>\<open>z.string().url()\<close>), and the conversion to a number
  that the language applies when a string, an array or an object is compared with
  \<^verbatim>\<open>> 0\<close> (\<open>gtZero\<close>; \<open>None\<close> when the conversion throws). They are the fields of an
  environment. The model may answer differently each time, so it carries a state of its
  own. A call resolves with a content that may be absent, or rejects with an error object
  whose message may be absent or empty.
\<close>

datatype instructions =
    AnalyzeInstr
  | AnswerInstr json
  | ConverseInstr

datatype reply =
    Content "string option"
  | Rejected "string option"

record 'p env =
  send :: "instructions \<Rightarrow> string \<Rightarrow> 'p \<Rightarrow> reply \<times> 'p"
  parseJSON :: "string \<Rightarrow> json option"
  isURL :: "string \<Rightarrow> bool"
  gtZero :: "json \<Rightarrow> bool option"

text \<open>
  The environment of the evaluations: the language model answers from a script, one reply
  per call, and is silent once the script is used up; a URL is taken to be well formed
  when it starts with \<^verbatim>\<open>http://\<close> or \<^verbatim>\<open>https://\<close>; no string, array or object is
  taken to be greater than zero (the inputs evaluated below have none in that place).
\<close>

definition scripted :: "instructions \<Rightarrow> string \<Rightarrow> reply list \<Rightarrow> reply \<times> reply list" where
  "scripted instr input script =
     (case script of [] \<Rightarrow> (Content None, []) | r # rest \<Rightarrow> (r, rest))"

definition sampleEnv :: "reply list env" where
  "sampleEnv =
     \<lparr> send = scripted, parseJSON = JSON_parse,
       isURL = (\<lambda>u. startsWith u ''http://'' \<or> startsWith u ''https://''),
       gtZero = (\<lambda>v. Some False) \<rparr>"

section \<open>Schemas of the ingestion endpoint\<close>

record feedbackItem =
  item_id :: number
  item_text :: string
  item_source :: string
  item_url :: "string option"

record analysisResult =
  originalId :: number
  originalSource :: string
  originalUrl :: "string option"
  analysis :: json

text \<open>
  The results cached by the endpoint are objects, and \<^verbatim>\<open>indexOf\<close> compares objects by
  reference: a cached result carries the address it was allocated at.
\<close>

record analysisResultObj = analysisResult +
  addr :: nat

text \<open>A validation issue is reported with the path of the offending field.\<close>

datatype seg = Key string | Idx nat

type_synonym issue = "seg list"

definition FeedbackItemSchema :: "'p env \<Rightarrow> json \<Rightarrow> issue list + feedbackItem" where
  "FeedbackItemSchema env j =
     (case j of
        JObj kvs \<Rightarrow>
          (let i1 = (case map_of kvs ''id'' of Some (JNum n) \<Rightarrow> [] | _ \<Rightarrow> [[Key ''id'']]);
               i2 = (case map_of kvs ''text'' of Some (JStr s) \<Rightarrow> [] | _ \<Rightarrow> [[Key ''text'']]);
               i3 = (case map_of kvs ''source'' of Some (JStr s) \<Rightarrow> [] | _ \<Rightarrow> [[Key ''source'']]);
               i4 = (case map_of kvs ''url'' of
                       None \<Rightarrow> []
                     | Some (JStr u) \<Rightarrow> if isURL env u then [] else [[Key ''url'']]
                     | Some _ \<Rightarrow> [[Key ''url'']])
           in if i1 @ i2 @ i3 @ i4 = [] then
                Inr \<lparr> item_id = (case map_of kvs ''id'' of Some (JNum n) \<Rightarrow> n | _ \<Rightarrow> (0, 0)),
                      item_text = (case map_of kvs ''text'' of Some (JStr s) \<Rightarrow> s | _ \<Rightarrow> []),
                      item_source = (case map_of kvs ''source'' of Some (JStr s) \<Rightarrow> s | _ \<Rightarrow> []),
                      item_url = (case map_of kvs ''url'' of Some (JStr u) \<Rightarrow> Some u | _ \<Rightarrow> None) \<rparr>
              else Inl (i1 @ i2 @ i3 @ i4))
      | _ \<Rightarrow> Inl [[]])"

fun feedbackArray :: "'p env \<Rightarrow> nat \<Rightarrow> json list \<Rightarrow> issue list \<times> feedbackItem list" where
  "feedbackArray env i [] = ([], [])"
| "feedbackArray env i (j # js) =
     (let (issues, items) = feedbackArray env (Suc i) js
      in case FeedbackItemSchema env j of
           Inl es \<Rightarrow> (map (\<lambda>path. Key ''feedback'' # Idx i # path) es @ issues, items)
         | Inr item \<Rightarrow> (issues, item # items))"

definition AnalyzeFeedbackInputSchema :: "'p env \<Rightarrow> json \<Rightarrow> issue list + feedbackItem list" where
  "AnalyzeFeedbackInputSchema env body =
     (case body of
        JObj kvs \<Rightarrow>
          (case map_of kvs ''feedback'' of
             Some (JArr js) \<Rightarrow>
               (case feedbackArray env 0 js of
                  ([], items) \<Rightarrow> Inr items
                | (issues, items) \<Rightarrow> Inl issues)
           | _ \<Rightarrow> Inl [[Key ''feedback'']])
      | _ \<Rightarrow> Inl [[]])"

definition isStr :: "json \<Rightarrow> bool" where
  "isStr j = (case j of JStr s \<Rightarrow> True | _ \<Rightarrow> False)"

definition AnalysisObjectSchema :: "json \<Rightarrow> bool" where
  "AnalysisObjectSchema j =
     (case j of
        JObj kvs \<Rightarrow>
          (case map_of kvs ''painPoints'' of Some (JArr ps) \<Rightarrow> list_all isStr ps | _ \<Rightarrow> False) \<and>
          (case map_of kvs ''summary'' of Some (JStr s) \<Rightarrow> True | _ \<Rightarrow> False) \<and>
          (case map_of kvs ''priority'' of
             Some (JStr s) \<Rightarrow> s = ''low'' \<or> s = ''medium'' \<or> s = ''high''
           | _ \<Rightarrow> False)
      | _ \<Rightarrow> False)"

definition AnalysisErrorSchema :: "json \<Rightarrow> bool" where
  "AnalysisErrorSchema j =
     (case j of
        JObj kvs \<Rightarrow> (case map_of kvs ''error'' of Some (JStr s) \<Rightarrow> True | _ \<Rightarrow> False)
      | _ \<Rightarrow> False)"

text \<open>
  The data a successful parse returns keeps the declared keys only; the union takes the
  first member that accepts the value.
\<close>

definition stripAnalysis :: "json \<Rightarrow> json" where
  "stripAnalysis j =
     (if AnalysisObjectSchema j then
        JObj (concat (map (\<lambda>k. case getProp j k of Some v \<Rightarrow> [(k, v)] | None \<Rightarrow> [])
                          [''painPoints'', ''summary'', ''priority'']))
      else
        JObj (concat (map (\<lambda>k. case getProp j k of Some v \<Rightarrow> [(k, v)] | None \<Rightarrow> [])
                          [''error'', ''rawOutput''])))"

definition AnalysisResultSchema :: "'p env \<Rightarrow> analysisResultObj \<Rightarrow> issue list + analysisResult" where
  "AnalysisResultSchema env r =
     (let i1 = (case originalUrl r of
                  None \<Rightarrow> []
                | Some u \<Rightarrow> if isURL env u then [] else [[Key ''originalUrl'']]);
          i2 = (if AnalysisObjectSchema (analysis r) \<or> AnalysisErrorSchema (analysis r) then []
                else [[Key ''analysis'']])
      in if i1 @ i2 = [] then
           Inr \<lparr> originalId = originalId r, originalSource = originalSource r,
                 originalUrl = originalUrl r, analysis = stripAnalysis (analysis r) \<rparr>
         else Inl (i1 @ i2))"

fun resultArray :: "'p env \<Rightarrow> nat \<Rightarrow> analysisResultObj list \<Rightarrow> issue list \<times> analysisResult list" where
  "resultArray env i [] = ([], [])"
| "resultArray env i (r # rs) =
     (let (issues, out) = resultArray env (Suc i) rs
      in case AnalysisResultSchema env r of
           Inl es \<Rightarrow> (map (\<lambda>path. Key ''analyzedResults'' # Idx i # path) es @ issues, out)
         | Inr d \<Rightarrow> (issues, d # out))"

definition AnalyzeFeedbackOutputSchema ::
    "'p env \<Rightarrow> analysisResultObj list \<Rightarrow> issue list + analysisResult list" where
  "AnalyzeFeedbackOutputSchema env rs =
     (case resultArray env 0 rs of
        ([], out) \<Rightarrow> Inr out
      | (issues, out) \<Rightarrow> Inl issues)"

section \<open>The analysis handler\<close>

definition stripFence :: "string \<Rightarrow> string" where
  "stripFence content =
     (let s1 = (if startsWith content ''```json'' then drop 7 content else content);
          s2 = (if endsWith s1 ''```'' then take (length s1 - 3) s1 else s1)
      in trim s2)"

definition failure :: "string \<Rightarrow> json option \<Rightarrow> json" where
  "failure msg raw =
     JObj ((''error'', JStr msg) # (case raw of Some v \<Rightarrow> [(''rawOutput'', v)] | None \<Rightarrow> []))"

text \<open>
  \<^verbatim>\<open>analyzedResults.push({originalId: item.id, originalSource: item.source, originalUrl: item.url, analysis})\<close>:
  the new object gets the next address after those of the call, which start at \<open>a0\<close>.
\<close>

definition push ::
    "nat \<Rightarrow> feedbackItem \<Rightarrow> json \<Rightarrow> analysisResultObj list \<Rightarrow> analysisResultObj list" where
  "push a0 item an analyzedResults =
     analyzedResults @
     [\<lparr> originalId = item_id item, originalSource = item_source item,
        originalUrl = item_url item, analysis = an, addr = a0 + length analyzedResults \<rparr>]"

text \<open>
  After the push of a parsed analysis, and still inside the \<^verbatim>\<open>try\<close>, the handler logs
  \<^verbatim>\<open>`Successfully analyzed item ${item.id}. Priority: ${parsedAnalysis.priority}`\<close>. Reading
  the priority throws when the parsed value is \<^verbatim>\<open>null\<close>, and the template throws when
  the priority cannot be converted to a string.
\<close>

definition successLogThrows :: "json \<Rightarrow> bool" where
  "successLogThrows parsedAnalysis =
     (case parsedAnalysis of
        JNull \<Rightarrow> True
      | _ \<Rightarrow> (case getProp parsedAnalysis ''priority'' of
                Some priority \<Rightarrow> toStringThrows priority
              | None \<Rightarrow> False))"

text \<open>
  The body of the loop for one item. When the log after the push throws, the
  \<^verbatim>\<open>catch (parseError)\<close> runs as it does for a parse error and pushes a failure as
  well: the item then has two results.
\<close>

definition analyzeItem ::
    "'p env \<Rightarrow> nat \<Rightarrow> feedbackItem \<Rightarrow> analysisResultObj list \<Rightarrow> 'p
       \<Rightarrow> analysisResultObj list \<times> 'p" where
  "analyzeItem env a0 item analyzedResults p =
     (case send env AnalyzeInstr (item_text item) p of
        (Content c, p') \<Rightarrow>
          (case c of
             Some content \<Rightarrow>
               if content \<noteq> [] then
                 (case parseJSON env (stripFence content) of
                    Some parsedAnalysis \<Rightarrow>
                      if successLogThrows parsedAnalysis then
                        (push a0 item (failure ''AI output not valid JSON'' (Some (JStr content)))
                           (push a0 item parsedAnalysis analyzedResults), p')
                      else (push a0 item parsedAnalysis analyzedResults, p')
                  | None \<Rightarrow>
                      (push a0 item (failure ''AI output not valid JSON'' (Some (JStr content)))
                         analyzedResults, p'))
               else (push a0 item (failure ''No AI content'' None) analyzedResults, p')
           | None \<Rightarrow> (push a0 item (failure ''No AI content'' None) analyzedResults, p'))
      | (Rejected m, p') \<Rightarrow>
          (push a0 item
             (failure (case m of
                         Some msg \<Rightarrow> if msg \<noteq> [] then msg else ''AI analysis failed''
                       | None \<Rightarrow> ''AI analysis failed'') None)
             analyzedResults, p'))"

fun analyzeLoop ::
    "'p env \<Rightarrow> nat \<Rightarrow> feedbackItem list \<Rightarrow> analysisResultObj list \<Rightarrow> 'p
       \<Rightarrow> analysisResultObj list \<times> 'p" where
  "analyzeLoop env a0 [] analyzedResults p = (analyzedResults, p)"
| "analyzeLoop env a0 (item # rest) analyzedResults p =
     (let (pushed, p') = analyzeItem env a0 item analyzedResults p
      in analyzeLoop env a0 rest pushed p')"

definition analyzeFeedbackToolHandler ::
    "'p env \<Rightarrow> nat \<Rightarrow> feedbackItem list \<Rightarrow> 'p \<Rightarrow> analysisResultObj list \<times> 'p" where
  "analyzeFeedbackToolHandler env a0 feedback p = analyzeLoop env a0 feedback [] p"

section \<open>The ingestion endpoint\<close>

text \<open>
  The module-level variables of the second version of \<^verbatim>\<open>src/index.ts\<close>: the cached
  results, the cursor and the search of every conversation, and the conversation recorded
  for every user. \<open>nextAddr\<close> is the next free address for a result object.
\<close>

record search =
  matches :: "analysisResultObj list"
  idx :: nat

record state =
  latestAnalysis :: "analysisResultObj list"
  userToInsightIndex :: "string \<rightharpoonup> int"
  userToSearchResults :: "string \<rightharpoonup> search"
  userToConversationId :: "string \<rightharpoonup> string"
  nextAddr :: nat

datatype response =
    BadRequest "issue list"
  | InvalidOutput "issue list" "analysisResultObj list"
  | Success "analysisResult list"

fun status :: "response \<Rightarrow> nat" where
  "status (BadRequest details) = 400"
| "status (InvalidOutput details rawOutput) = 500"
| "status (Success data) = 200"

text \<open>
  \<^verbatim>\<open>mcpExpressApp.post('/api/mcp/ingest', ...)\<close>. The handler catches what the language
  model and the parser throw, so the outer \<^verbatim>\<open>catch\<close> of the endpoint is not reached.
\<close>

definition ingest :: "'p env \<Rightarrow> json \<Rightarrow> state \<Rightarrow> 'p \<Rightarrow> response \<times> state \<times> 'p" where
  "ingest env body st p =
     (case AnalyzeFeedbackInputSchema env body of
        Inl issues \<Rightarrow> (BadRequest issues, st, p)
      | Inr feedback \<Rightarrow>
          (let (analyzedResults, p') = analyzeFeedbackToolHandler env (nextAddr st) feedback p;
               st' = st \<lparr> latestAnalysis := analyzedResults,
                          userToInsightIndex := Map.empty,
                          userToSearchResults := Map.empty,
                          nextAddr := nextAddr st + length analyzedResults \<rparr>
           in case AnalyzeFeedbackOutputSchema env analyzedResults of
                Inl issues \<Rightarrow> (InvalidOutput issues analyzedResults, st', p')
              | Inr data \<Rightarrow> (Success data, st', p')))"

section \<open>Sample inputs\<close>

text \<open>
  A batch of three items and the replies of Scenario A of the specification: valid JSON
  (fenced) for the first item, a sentence for the second, valid JSON for the third.
\<close>

definition sampleItems :: "feedbackItem list" where
  "sampleItems =
     [\<lparr> item_id = (1, 0), item_text = ''Bot install fails with a manifest error'',
         item_source = ''Stack Overflow'',
         item_url = Some ''https://stackoverflow.com/questions/1'' \<rparr>,
      \<lparr> item_id = (2, 0), item_text = ''Docs for message extensions are outdated'',
         item_source = ''GitHub Issues'', item_url = None \<rparr>,
      \<lparr> item_id = (3, 0), item_text = ''Adaptive card does not render on mobile'',
         item_source = ''GitHub Issues'',
         item_url = Some ''https://github.com/MicrosoftDocs/msteams-docs/issues/3'' \<rparr>]"

definition sampleBody :: json where
  "sampleBody =
     JObj [(''feedback'', JArr
       [JObj [(''id'', JNum (1, 0)), (''text'', JStr ''Bot install fails with a manifest error''),
              (''source'', JStr ''Stack Overflow''),
              (''url'', JStr ''https://stackoverflow.com/questions/1'')],
        JObj [(''id'', JNum (2, 0)), (''text'', JStr ''Docs for message extensions are outdated''),
              (''source'', JStr ''GitHub Issues'')],
        JObj [(''id'', JNum (3, 0)), (''text'', JStr ''Adaptive card does not render on mobile''),
              (''source'', JStr ''GitHub Issues''),
              (''url'', JStr ''https://github.com/MicrosoftDocs/msteams-docs/issues/3'')]])]"

definition scenarioA :: "reply list" where
  \<open>scenarioA =
     [Content (Some (''```json'' @ [CHR 0x0A]
        @ ''{"painPoints":["manifest validation"],"summary":"Install fails","priority":"high"}''
        @ [CHR 0x0A] @ ''```'')),
      Content (Some ''Sure! Here is the analysis you asked for.''),
      Content (Some ''{"painPoints":[],"summary":"Card is blank on mobile","priority":"medium"}'')]\<close>

text \<open>A state with an earlier batch of one result and a conversation that is viewing it.\<close>

definition oldResult :: analysisResultObj where
  "oldResult =
     \<lparr> originalId = (7, 0), originalSource = ''Stack Overflow'', originalUrl = None,
       analysis = JObj [(''painPoints'', JArr [JStr ''slow sign-in'']),
                        (''summary'', JStr ''Sign-in takes a minute''),
                        (''priority'', JStr ''low'')],
       addr = 0 \<rparr>"

definition sampleState :: state where
  "sampleState =
     \<lparr> latestAnalysis = [oldResult],
       userToInsightIndex = [''conv-a'' \<mapsto> 0],
       userToSearchResults = [''conv-a'' \<mapsto> \<lparr> matches = [oldResult], idx = 0 \<rparr>],
       userToConversationId = Map.empty,
       nextAddr = 1 \<rparr>"

text \<open>One item, and a reply that is a JSON object with a priority outside the taxonomy.\<close>

definition oneItemBody :: "string \<Rightarrow> json" where
  "oneItemBody t =
     JObj [(''feedback'', JArr
       [JObj [(''id'', JNum (1, 0)), (''text'', JStr t), (''source'', JStr ''GitHub Issues'')]])]"

definition oneItem :: "string \<Rightarrow> feedbackItem" where
  "oneItem t =
     \<lparr> item_id = (1, 0), item_text = t, item_source = ''GitHub Issues'', item_url = None \<rparr>"

definition urgentReply :: string where
  \<open>urgentReply = ''{"painPoints":["crash on start"],"summary":"App crashes","priority":"urgent"}''\<close>

definition urgentAnalysis :: json where
  "urgentAnalysis =
     JObj [(''painPoints'', JArr [JStr ''crash on start'']), (''summary'', JStr ''App crashes''),
           (''priority'', JStr ''urgent'')]"

definition lowReply :: string where
  \<open>lowReply = ''{"painPoints":[],"summary":"Nothing to analyze","priority":"low"}''\<close>

text \<open>A payload whose second item has no \<^verbatim>\<open>text\<close>.\<close>

definition missingTextBody :: json where
  "missingTextBody =
     JObj [(''feedback'', JArr
       [JObj [(''id'', JNum (1, 0)), (''text'', JStr ''Bot install fails''),
              (''source'', JStr ''Stack Overflow'')],
        JObj [(''id'', JNum (2, 0)), (''source'', JStr ''GitHub Issues'')]])]"

section \<open>The message handler\<close>

text \<open>
  What the handler reads of an incoming activity: \<^verbatim>\<open>context.activity.text\<close>,
  \<^verbatim>\<open>context.activity.conversation.id\<close> and \<^verbatim>\<open>context.activity.from.aadObjectId\<close>.
\<close>

record activity =
  activityText :: "string option"
  conversationId :: string
  aadObjectId :: "string option"

text \<open>
  What the handler sends. Every message of the source is one constructor; a message built
  from a template carries the values the template interpolates, a card carries the analysis
  it is built from. The rendering to text is left to the transport.
\<close>

datatype outmsg =
    Typing
  | Help
  | NoResultsYet
  | Card json
  | MostRecentHint
  | NeedKeyword
  | NoMatches string
  | SummaryMsg json
  | Found nat
  | NoActiveSearch
  | NoMoreSearchResults
  | NextMatchHint
  | LastSearchResult
  | NoCurrent
  | NeedQuestion
  | Answer string
  | CouldNotAnswer
  | CouldNotProcess
  | MoreInsights nat
  | NoMoreInsights
  | LastInsight
  | Echo "string option"
  | Greeting
  | NoFeedbackYet
  | NoAnalysisYet
  | Getting
  | ErrorCard json
  | HereToHelp
  | CouldNotConverse

text \<open>
  The outcome of one turn: the messages sent, whether the handler ended with an uncaught
  \<^verbatim>\<open>TypeError\<close>, the module state and the state of the language model afterwards.
\<close>

record ('s, 'p) outcome =
  sent :: "outmsg list"
  failed :: bool
  stateAfter :: 's
  modelAfter :: 'p

definition finish :: "outmsg list \<Rightarrow> 's \<Rightarrow> 'p \<Rightarrow> ('s, 'p) outcome" where
  "finish msgs s p = \<lparr> sent = Typing # msgs, failed = False, stateAfter = s, modelAfter = p \<rparr>"

definition throwTypeError :: "outmsg list \<Rightarrow> 's \<Rightarrow> 'p \<Rightarrow> ('s, 'p) outcome" where
  "throwTypeError msgs s p = \<lparr> sent = Typing # msgs, failed = True, stateAfter = s, modelAfter = p \<rparr>"

text \<open>
  \<^verbatim>\<open>'error' in a\<close>: a \<^verbatim>\<open>TypeError\<close> (\<open>None\<close>) unless \<open>a\<close> is an object or an array.
\<close>

fun hasError :: "json \<Rightarrow> bool option" where
  "hasError (JObj kvs) = Some (map_of kvs ''error'' \<noteq> None)"
| "hasError (JArr xs) = Some False"
| "hasError v = None"

text \<open>
  \<^verbatim>\<open>v > 0\<close> for a value that may be \<^verbatim>\<open>undefined\<close>. A string, an array or an object is
  first converted to a number by the language (the field \<open>gtZero\<close> of the environment;
  \<open>None\<close> when that throws).
\<close>

fun greaterZero :: "(json \<Rightarrow> bool option) \<Rightarrow> json option \<Rightarrow> bool option" where
  "greaterZero conv None = Some False"
| "greaterZero conv (Some JNull) = Some False"
| "greaterZero conv (Some (JBool b)) = Some b"
| "greaterZero conv (Some (JNum (m, e))) = Some (0 < m)"
| "greaterZero conv (Some v) = conv v"

text \<open>
  \<^verbatim>\<open>analysis.painPoints && analysis.painPoints.length > 0\<close> followed by
  \<^verbatim>\<open>analysis.painPoints.map(point => `- ${point}`)\<close>, for an analysis that is not
  \<^verbatim>\<open>null\<close>: whether this throws.
\<close>

definition painPointsThrow :: "(json \<Rightarrow> bool option) \<Rightarrow> json \<Rightarrow> bool" where
  "painPointsThrow conv a =
     (case getProp a ''painPoints'' of
        None \<Rightarrow> False
      | Some pp \<Rightarrow>
          if truthy (Some pp) then
            (case greaterZero conv (getProp pp ''length'') of
               None \<Rightarrow> True
             | Some True \<Rightarrow> (case pp of JArr points \<Rightarrow> list_ex toStringThrows points | _ \<Rightarrow> True)
             | Some False \<Rightarrow> False)
          else False)"

text \<open>
  \<^verbatim>\<open>createFeedbackAnalysisCard\<close> of the second version: it reads
  \<^verbatim>\<open>analysis.priority.toUpperCase()\<close> first, which throws unless the analysis has a
  string priority; it has no case for an error analysis.
\<close>

definition createFeedbackAnalysisCard :: "(json \<Rightarrow> bool option) \<Rightarrow> json \<Rightarrow> outmsg option" where
  "createFeedbackAnalysisCard conv a =
     (if a = JNull then None
      else case getProp a ''priority'' of
             Some (JStr priority) \<Rightarrow> if painPointsThrow conv a then None else Some (Card a)
           | _ \<Rightarrow> None)"

text \<open>
  The summary message that follows a card of a search:
  \<^verbatim>\<open>if (!('error' in a)) { let msg = `**Summary:** ${a.summary}\n**Priority:** ${a.priority.toUpperCase()}...`; ...; await context.send(msg) }\<close>.
\<close>

definition summaryMessage :: "(json \<Rightarrow> bool option) \<Rightarrow> json \<Rightarrow> outmsg list option" where
  "summaryMessage conv a =
     (case hasError a of
        None \<Rightarrow> None
      | Some True \<Rightarrow> Some []
      | Some False \<Rightarrow>
          if (case getProp a ''summary'' of Some s \<Rightarrow> toStringThrows s | None \<Rightarrow> False) then None
          else (case getProp a ''priority'' of
                  Some (JStr priority) \<Rightarrow>
                    if painPointsThrow conv a then None else Some [SummaryMsg a]
                | _ \<Rightarrow> None))"

text \<open>The predicate of the search filter; \<open>None\<close> is a \<^verbatim>\<open>TypeError\<close>.\<close>

fun somePainPoint :: "string \<Rightarrow> json list \<Rightarrow> bool option" where
  "somePainPoint keyword [] = Some False"
| "somePainPoint keyword (p # ps) =
     (case p of
        JStr s \<Rightarrow> if includes_str (toLowerCase s) keyword then Some True else somePainPoint keyword ps
      | _ \<Rightarrow> None)"

definition matchesKeyword :: "string \<Rightarrow> analysisResultObj \<Rightarrow> bool option" where
  "matchesKeyword keyword r =
     (let a = analysis r;
          feedbackText = originalSource r @ '' '' @ (case originalUrl r of Some u \<Rightarrow> u | None \<Rightarrow> [])
      in case hasError a of
           None \<Rightarrow> None
         | Some True \<Rightarrow> Some False
         | Some False \<Rightarrow>
             (case (case getProp a ''summary'' of
                      None \<Rightarrow> Some False
                    | Some s \<Rightarrow>
                        if truthy (Some s) then
                          (case s of
                             JStr t \<Rightarrow> Some (includes_str (toLowerCase t) keyword)
                           | _ \<Rightarrow> None)
                        else Some False) of
                None \<Rightarrow> None
              | Some True \<Rightarrow> Some True
              | Some False \<Rightarrow>
                  (case (case getProp a ''painPoints'' of
                           None \<Rightarrow> Some False
                         | Some pp \<Rightarrow>
                             if truthy (Some pp) then
                               (case pp of JArr ps \<Rightarrow> somePainPoint keyword ps | _ \<Rightarrow> None)
                             else Some False) of
                     None \<Rightarrow> None
                   | Some True \<Rightarrow> Some True
                   | Some False \<Rightarrow> Some (includes_str (toLowerCase feedbackText) keyword))))"

fun filterMatches :: "string \<Rightarrow> analysisResultObj list \<Rightarrow> analysisResultObj list option" where
  "filterMatches keyword [] = Some []"
| "filterMatches keyword (r # rs) =
     (case matchesKeyword keyword r of
        None \<Rightarrow> None
      | Some b \<Rightarrow>
          (case filterMatches keyword rs of
             None \<Rightarrow> None
           | Some ms \<Rightarrow> Some (if b then r # ms else ms)))"

text \<open>\<^verbatim>\<open>xs.indexOf(x)\<close>, and \<^verbatim>\<open>xs[i]\<close> for an integer \<open>i\<close>.\<close>

fun indexOf :: "'a list \<Rightarrow> 'a \<Rightarrow> int" where
  "indexOf [] x = - 1"
| "indexOf (y # ys) x = (if y = x then 0 else if indexOf ys x < 0 then - 1 else indexOf ys x + 1)"

definition at :: "'a list \<Rightarrow> int \<Rightarrow> 'a option" where
  "at xs i = (if 0 \<le> i \<and> i < int (length xs) then Some (xs ! nat i) else None)"

definition setCursor :: "string \<Rightarrow> int \<Rightarrow> state \<Rightarrow> state" where
  "setCursor userKey i st = st \<lparr> userToInsightIndex := (userToInsightIndex st)(userKey \<mapsto> i) \<rparr>"

text \<open>The branch of \<^verbatim>\<open>/latest_insight\<close>.\<close>

definition latestInsight ::
    "'p env \<Rightarrow> string \<Rightarrow> state \<Rightarrow> 'p \<Rightarrow> (state, 'p) outcome" where
  "latestInsight env userKey st p =
     (if latestAnalysis st = [] then finish [NoResultsYet] st p
      else
        let i = length (latestAnalysis st) - 1;
            st1 = setCursor userKey (int i) st
        in case createFeedbackAnalysisCard (gtZero env) (analysis (latestAnalysis st ! i)) of
             None \<Rightarrow> throwTypeError [] st1 p
           | Some c \<Rightarrow> finish [c, MostRecentHint] st1 p)"

text \<open>The branch of \<^verbatim>\<open>/search_insights\<close>; \<open>rest\<close> is \<^verbatim>\<open>text.slice('/search_insights'.length)\<close>.\<close>

definition searchInsights ::
    "'p env \<Rightarrow> string \<Rightarrow> string \<Rightarrow> state \<Rightarrow> 'p \<Rightarrow> (state, 'p) outcome" where
  "searchInsights env userKey rest st p =
     (let keyword = toLowerCase (trim rest)
      in if keyword = [] then finish [NeedKeyword] st p
         else if latestAnalysis st = [] then finish [NoResultsYet] st p
         else
           (case filterMatches keyword (latestAnalysis st) of
              None \<Rightarrow> throwTypeError [] st p
            | Some ms \<Rightarrow>
                if ms = [] then finish [NoMatches keyword] st p
                else
                  let st1 = st \<lparr> userToSearchResults :=
                                   (userToSearchResults st)(userKey \<mapsto> \<lparr> matches = ms, idx = 0 \<rparr>) \<rparr>
                  in case createFeedbackAnalysisCard (gtZero env) (analysis (hd ms)) of
                       None \<Rightarrow> throwTypeError [] st1 p
                     | Some c \<Rightarrow>
                         (case summaryMessage (gtZero env) (analysis (hd ms)) of
                            None \<Rightarrow> throwTypeError [c] st1 p
                          | Some msg \<Rightarrow>
                              finish ([c] @ msg @ (if 1 < length ms then [Found (length ms)] else []))
                                (setCursor userKey (indexOf (latestAnalysis st) (hd ms)) st1) p)))"

text \<open>
  The branch of \<^verbatim>\<open>/next_search_result\<close>. \<^verbatim>\<open>search.idx++\<close> updates the object held by
  the map, so the increment stays when a later step throws.
\<close>

definition nextSearchResult ::
    "'p env \<Rightarrow> string \<Rightarrow> state \<Rightarrow> 'p \<Rightarrow> (state, 'p) outcome" where
  "nextSearchResult env userKey st p =
     (case userToSearchResults st userKey of
        None \<Rightarrow> finish [NoActiveSearch] st p
      | Some search \<Rightarrow>
          if matches search = [] then finish [NoActiveSearch] st p
          else
            let i = idx search + 1;
                st1 = st \<lparr> userToSearchResults :=
                             (userToSearchResults st)(userKey \<mapsto> search \<lparr> idx := i \<rparr>) \<rparr>
            in if length (matches search) \<le> i then
                 finish [NoMoreSearchResults]
                   (st1 \<lparr> userToSearchResults := (userToSearchResults st1)(userKey := None) \<rparr>) p
               else
                 (case createFeedbackAnalysisCard (gtZero env) (analysis (matches search ! i)) of
                    None \<Rightarrow> throwTypeError [] st1 p
                  | Some c \<Rightarrow>
                      (case summaryMessage (gtZero env) (analysis (matches search ! i)) of
                         None \<Rightarrow> throwTypeError [c] st1 p
                       | Some msg \<Rightarrow>
                           finish ([c] @ msg @
                                   [if i < length (matches search) - 1 then NextMatchHint
                                    else LastSearchResult])
                             (setCursor userKey (indexOf (latestAnalysis st) (matches search ! i)) st1)
                             p)))"

text \<open>The branch of \<^verbatim>\<open>/ask_about_current\<close>; \<open>rest\<close> is the text after the command.\<close>

definition askAboutCurrent ::
    "'p env \<Rightarrow> string \<Rightarrow> string \<Rightarrow> state \<Rightarrow> 'p \<Rightarrow> (state, 'p) outcome" where
  "askAboutCurrent env userKey rest st p =
     (case userToInsightIndex st userKey of
        None \<Rightarrow> finish [NoCurrent] st p
      | Some i \<Rightarrow>
          (case at (latestAnalysis st) i of
             None \<Rightarrow> finish [NoCurrent] st p
           | Some r \<Rightarrow>
               let question = trim rest
               in if question = [] then finish [NeedQuestion] st p
                  else
                    (case send env (AnswerInstr (analysis r)) question p of
                       (Content c, p') \<Rightarrow>
                         (case c of
                            None \<Rightarrow> finish [CouldNotAnswer] st p'
                          | Some content \<Rightarrow>
                              if trim content \<noteq> [] then finish [Answer (trim content)] st p'
                              else finish [CouldNotAnswer] st p')
                     | (Rejected m, p') \<Rightarrow> finish [CouldNotProcess] st p')))"

text \<open>The branch of \<^verbatim>\<open>/show_insights\<close>.\<close>

definition showInsights ::
    "'p env \<Rightarrow> string \<Rightarrow> state \<Rightarrow> 'p \<Rightarrow> (state, 'p) outcome" where
  "showInsights env userKey st p =
     (if latestAnalysis st = [] then finish [NoResultsYet] st p
      else
        let st1 = setCursor userKey 0 st
        in case createFeedbackAnalysisCard (gtZero env) (analysis (hd (latestAnalysis st))) of
             None \<Rightarrow> throwTypeError [] st1 p
           | Some c \<Rightarrow>
               finish ([c] @ (if 1 < length (latestAnalysis st)
                                 then [MoreInsights (length (latestAnalysis st) - 1)] else []))
                 st1 p)"

text \<open>
  The branch of \<^verbatim>\<open>/next_insight\<close>:
  \<^verbatim>\<open>let idx = userToInsightIndex.get(userKey) ?? 0; idx++;\<close>.
\<close>

definition nextInsight ::
    "'p env \<Rightarrow> string \<Rightarrow> state \<Rightarrow> 'p \<Rightarrow> (state, 'p) outcome" where
  "nextInsight env userKey st p =
     (if latestAnalysis st = [] then finish [NoResultsYet] st p
      else
        let i = (case userToInsightIndex st userKey of Some j \<Rightarrow> j | None \<Rightarrow> 0) + 1
        in if int (length (latestAnalysis st)) \<le> i then
             finish [NoMoreInsights] (setCursor userKey 0 st) p
           else
             let st1 = setCursor userKey i st
             in case at (latestAnalysis st) i of
                  None \<Rightarrow> throwTypeError [] st1 p
                | Some result \<Rightarrow>
                    (case createFeedbackAnalysisCard (gtZero env) (analysis result) of
                       None \<Rightarrow> throwTypeError [] st1 p
                     | Some c \<Rightarrow>
                         finish [c,
                                 if i < int (length (latestAnalysis st)) - 1
                                 then MoreInsights (nat (int (length (latestAnalysis st)) - i - 1))
                                 else LastInsight]
                           st1 p))"

text \<open>
  The end of the handler, reached by a text that is no command: the echo with the list of
  commands, then the conversation of the user is recorded if it is not yet.
\<close>

definition rememberConversation :: "activity \<Rightarrow> (string \<rightharpoonup> string) \<Rightarrow> (string \<rightharpoonup> string)" where
  "rememberConversation act m =
     (case aadObjectId act of
        None \<Rightarrow> m
      | Some user \<Rightarrow>
          if user \<noteq> [] \<and> conversationId act \<noteq> [] \<and> m user = None
          then m(user \<mapsto> conversationId act) else m)"

definition echoDefault :: "activity \<Rightarrow> state \<Rightarrow> 'p \<Rightarrow> (state, 'p) outcome" where
  "echoDefault act st p =
     finish [Echo (activityText act)]
       (st \<lparr> userToConversationId := rememberConversation act (userToConversationId st) \<rparr>) p"

text \<open>
  \<^verbatim>\<open>teamsApp.on('message', ...)\<close> of the second version of \<^verbatim>\<open>src/index.ts\<close>, the one
  with the navigation commands. The branches are tried in the order of the source.
\<close>

definition onMessage ::
    "'p env \<Rightarrow> activity \<Rightarrow> state \<Rightarrow> 'p \<Rightarrow> (state, 'p) outcome" where
  "onMessage env act st p =
     (let text = map_option trim (activityText act);
          lowerText = (case text of Some t \<Rightarrow> toLowerCase t | None \<Rightarrow> []);
          userKey = conversationId act
      in if lowerText = ''/about'' \<or> lowerText = ''/help'' then finish [Help] st p
         else if lowerText = ''/latest_insight'' then latestInsight env userKey st p
         else if startsWith lowerText ''/search_insights'' then
           searchInsights env userKey
             (drop (length ''/search_insights'') (case text of Some t \<Rightarrow> t | None \<Rightarrow> [])) st p
         else if lowerText = ''/next_search_result'' then nextSearchResult env userKey st p
         else if startsWith lowerText ''/ask_about_current'' then
           askAboutCurrent env userKey
             (drop (length ''/ask_about_current'') (case text of Some t \<Rightarrow> t | None \<Rightarrow> [])) st p
         else if lowerText = ''/show_insights'' then showInsights env userKey st p
         else if lowerText = ''/next_insight'' then nextInsight env userKey st p
         else echoDefault act st p)"

section \<open>The message handler of the first version\<close>

text \<open>
  The first version of \<^verbatim>\<open>src/index.ts\<close> has no navigation commands: it knows
  \<^verbatim>\<open>hello\<close> and \<^verbatim>\<open>/show_insights\<close>, which sends a card for every cached result, and
  gives any other text to the language model. Its state has the latest feedback, the latest
  analysis and the recorded conversations.
\<close>

record state1 =
  latestFeedback1 :: "feedbackItem list"
  latestAnalysis1 :: "analysisResultObj list"
  userToConversationId1 :: "string \<rightharpoonup> string"

text \<open>
  Its \<^verbatim>\<open>createFeedbackAnalysisCard\<close> starts with \<^verbatim>\<open>if ('error' in analysis)\<close> and
  renders an error card with \<^verbatim>\<open>`Error: ${analysis.error}`\<close>.
\<close>

definition createFeedbackAnalysisCard1 :: "(json \<Rightarrow> bool option) \<Rightarrow> json \<Rightarrow> outmsg option" where
  "createFeedbackAnalysisCard1 conv a =
     (case hasError a of
        None \<Rightarrow> None
      | Some True \<Rightarrow>
          if (case getProp a ''error'' of Some e \<Rightarrow> toStringThrows e | None \<Rightarrow> False) then None
          else Some (ErrorCard a)
      | Some False \<Rightarrow>
          (case getProp a ''priority'' of
             Some (JStr priority) \<Rightarrow> if painPointsThrow conv a then None else Some (Card a)
           | _ \<Rightarrow> None))"

fun sendCards ::
    "(json \<Rightarrow> bool option) \<Rightarrow> analysisResultObj list \<Rightarrow> outmsg list \<Rightarrow> outmsg list \<times> bool" where
  "sendCards conv [] msgs = (msgs, False)"
| "sendCards conv (result # rest) msgs =
     (case createFeedbackAnalysisCard1 conv (analysis result) of
        None \<Rightarrow> (msgs, True)
      | Some c \<Rightarrow> sendCards conv rest (msgs @ [c]))"

definition onMessage1 :: "'p env \<Rightarrow> activity \<Rightarrow> state1 \<Rightarrow> 'p \<Rightarrow> (state1, 'p) outcome" where
  "onMessage1 env act st p =
     (let text = map_option (\<lambda>t. toLowerCase (trim t)) (activityText act);
          remembered = st \<lparr> userToConversationId1 :=
                              rememberConversation act (userToConversationId1 st) \<rparr>
      in if text = Some ''hello'' then finish [Greeting] remembered p
         else if text = Some ''/show_insights'' then
           (if latestFeedback1 st = [] then finish [NoFeedbackYet] st p
            else if latestAnalysis1 st = [] then finish [NoAnalysisYet] st p
            else
              (case sendCards (gtZero env) (latestAnalysis1 st) [Getting] of
                 (msgs, True) \<Rightarrow> throwTypeError msgs st p
               | (msgs, False) \<Rightarrow> finish msgs remembered p))
         else
           (case send env ConverseInstr (case activityText act of Some t \<Rightarrow> t | None \<Rightarrow> []) p of
              (Content c, p') \<Rightarrow>
                (case c of
                   None \<Rightarrow> finish [HereToHelp] remembered p'
                 | Some content \<Rightarrow>
                     if content \<noteq> [] then finish [Answer (trim content)] remembered p'
                     else finish [HereToHelp] remembered p')
            | (Rejected m, p') \<Rightarrow> finish [CouldNotConverse] remembered p'))"

section \<open>Sample sessions\<close>

text \<open>
  A batch of three results, the last a failure, and conversations in each of the three
  states: \<^verbatim>\<open>conv-idle\<close> has no cursor, \<^verbatim>\<open>conv-view\<close> is on the last result,
  \<^verbatim>\<open>conv-search\<close> is on the last of two matches.
\<close>

definition batch3 :: "analysisResultObj list" where
  "batch3 =
     [\<lparr> originalId = (1, 0), originalSource = ''Stack Overflow'',
         originalUrl = Some ''https://stackoverflow.com/questions/1'',
         analysis = JObj [(''painPoints'', JArr [JStr ''Bot manifest validation'']),
                          (''summary'', JStr ''Install fails''), (''priority'', JStr ''high'')],
         addr = 1 \<rparr>,
      \<lparr> originalId = (2, 0), originalSource = ''GitHub Issues'',
         originalUrl = Some ''https://github.com/MicrosoftDocs/msteams-docs/issues/3'',
         analysis = JObj [(''painPoints'', JArr []),
                          (''summary'', JStr ''Bot card is blank on mobile''),
                          (''priority'', JStr ''medium'')],
         addr = 2 \<rparr>,
      \<lparr> originalId = (3, 0), originalSource = ''GitHub Issues'', originalUrl = None,
         analysis = JObj [(''error'', JStr ''AI output not valid JSON''),
                          (''rawOutput'', JStr ''The bot docs are outdated.'')],
         addr = 3 \<rparr>]"

definition navState :: state where
  "navState =
     \<lparr> latestAnalysis = batch3,
       userToInsightIndex = [''conv-view'' \<mapsto> 2, ''conv-search'' \<mapsto> 1],
       userToSearchResults =
         [''conv-search'' \<mapsto> \<lparr> matches = [batch3 ! 0, batch3 ! 1], idx = 1 \<rparr>],
       userToConversationId = Map.empty,
       nextAddr = 4 \<rparr>"

definition message :: "string \<Rightarrow> string \<Rightarrow> activity" where
  "message userKey t =
     \<lparr> activityText = Some t, conversationId = userKey, aadObjectId = Some ''user-1'' \<rparr>"

definition sampleState1 :: state1 where
  "sampleState1 =
     \<lparr> latestFeedback1 = sampleItems, latestAnalysis1 = batch3,
       userToConversationId1 = Map.empty \<rparr>"

section \<open>Results about the analysis handler\<close>

text \<open>
  C1, one result per feedback item, does not hold for the handler. The log that follows
  the push of a parsed value reads \<^verbatim>\<open>parsedAnalysis.priority\<close> inside the \<^verbatim>\<open>try\<close>
  that guards the parser. When the model answers \<^verbatim>\<open>null\<close> the parser returns
  \<^verbatim>\<open>null\<close>, which is pushed; reading its priority throws and the \<^verbatim>\<open>catch\<close> pushes a
  failure for the same item: a batch of one item gets two results. In a batch of three
  items whose first is answered so, the result at index 1 belongs to the first item, not
  to the second. Through the endpoint the two results are cached and the answer is 500.
\<close>

theorem handler_two_results_for_one_item:
  "fst (analyzeFeedbackToolHandler sampleEnv 1 [oneItem ''Docs are outdated'']
          [Content (Some ''null'')]) =
     [\<lparr> originalId = (1, 0), originalSource = ''GitHub Issues'', originalUrl = None,
         analysis = JNull, addr = 1 \<rparr>,
      \<lparr> originalId = (1, 0), originalSource = ''GitHub Issues'', originalUrl = None,
         analysis = JObj [(''error'', JStr ''AI output not valid JSON''),
                          (''rawOutput'', JStr ''null'')],
         addr = 2 \<rparr>]
   \<and> length (fst (analyzeFeedbackToolHandler sampleEnv 1 [oneItem ''Docs are outdated'']
          [Content (Some ''null'')])) = 2
   \<and> length [oneItem ''Docs are outdated''] = 1
   \<and> map originalId (fst (analyzeFeedbackToolHandler sampleEnv 1 sampleItems
          (Content (Some ''null'') # tl scenarioA))) = [(1, 0), (1, 0), (2, 0), (3, 0)]
   \<and> map item_id sampleItems = [(1, 0), (2, 0), (3, 0)]
   \<and> status (fst (ingest sampleEnv (oneItemBody ''Docs are outdated'') sampleState
          [Content (Some ''null'')])) = 500
   \<and> length (latestAnalysis (fst (snd (ingest sampleEnv (oneItemBody ''Docs are outdated'')
          sampleState [Content (Some ''null'')])))) = 2"
  by code_simp

lemma whiteSpace_nonempty: "w \<in> set whiteSpace \<Longrightarrow> w \<noteq> []"
  by (auto simp: whiteSpace_def)

lemma stripLeading_removed:
  "\<exists>pres. set pres \<subseteq> set ws \<and> s = concat pres @ stripLeading ws s"
proof (induction ws s rule: stripLeading.induct)
  case (1 ws)
  have "set [] \<subseteq> set ws \<and> [] = concat [] @ stripLeading ws []" by simp
  then show ?case by blast
next
  case (2 ws c cs)
  show ?case
  proof (cases "find (\<lambda>w. w \<noteq> [] \<and> startsWith (c # cs) w) ws")
    case None
    then have "set [] \<subseteq> set ws \<and> c # cs = concat [] @ stripLeading ws (c # cs)" by simp
    then show ?thesis by blast
  next
    case (Some w)
    then have w: "w \<in> set ws" "w \<noteq> []" "startsWith (c # cs) w"
      by (auto simp: find_Some_iff)
    from "2.IH" [OF Some] obtain pres where
      pres: "set pres \<subseteq> set ws"
      "drop (length w - 1) cs = concat pres @ stripLeading ws (drop (length w - 1) cs)"
      by blast
    from w(2) have d: "drop (length w) (c # cs) = drop (length w - 1) cs"
      by (cases w) simp_all
    have e: "stripLeading ws (c # cs) = stripLeading ws (drop (length w - 1) cs)"
      using Some by simp
    from w(3) have "c # cs = w @ drop (length w) (c # cs)"
      unfolding startsWith_def by (metis append_take_drop_id)
    then have "c # cs = w @ drop (length w - 1) cs"
      unfolding d .
    then have "c # cs = w @ (concat pres @ stripLeading ws (drop (length w - 1) cs))"
      using pres(2) by metis
    then have "c # cs = concat (w # pres) @ stripLeading ws (c # cs)"
      unfolding e by simp
    with w(1) pres(1) have "set (w # pres) \<subseteq> set ws
        \<and> c # cs = concat (w # pres) @ stripLeading ws (c # cs)"
      by simp
    then show ?thesis by blast
  qed
qed

lemma stripLeading_done:
  "w \<in> set ws \<Longrightarrow> w \<noteq> [] \<Longrightarrow> \<not> startsWith (stripLeading ws s) w"
proof (induction ws s rule: stripLeading.induct)
  case (1 ws)
  then show ?case by (auto simp: startsWith_def)
next
  case (2 ws c cs)
  show ?case
  proof (cases "find (\<lambda>w. w \<noteq> [] \<and> startsWith (c # cs) w) ws")
    case None
    then have e: "stripLeading ws (c # cs) = c # cs"
      by simp
    from None "2.prems" have "\<not> startsWith (c # cs) w"
      by (auto simp: find_None_iff)
    then show ?thesis unfolding e .
  next
    case (Some v)
    then have e: "stripLeading ws (c # cs) = stripLeading ws (drop (length v - 1) cs)"
      by simp
    show ?thesis
      unfolding e using "2.IH" [OF Some "2.prems"] .
  qed
qed

lemma endsWith_rev: "endsWith x w \<longleftrightarrow> startsWith (rev x) (rev w)"
proof (cases "length w \<le> length x")
  case True
  then have "take (length w) (rev x) = rev (drop (length x - length w) x)"
    by (simp add: take_rev)
  with True show ?thesis by (simp add: endsWith_def startsWith_def)
next
  case False
  then have "length (take (length w) (rev x)) \<noteq> length (rev w)" by simp
  then have "take (length w) (rev x) \<noteq> rev w" by metis
  with False show ?thesis by (simp add: endsWith_def startsWith_def)
qed

lemma startsWith_append: "startsWith a w \<Longrightarrow> startsWith (a @ b) w"
  unfolding startsWith_def
  by (metis append_eq_conv_conj append.assoc append_take_drop_id)

lemma trim_strips_white_space:
  "(\<exists>pres posts. set pres \<subseteq> set whiteSpace \<and> set posts \<subseteq> set whiteSpace
       \<and> s = concat pres @ trim s @ concat posts)
   \<and> (\<forall>w \<in> set whiteSpace. \<not> startsWith (trim s) w \<and> \<not> endsWith (trim s) w)"
proof (intro conjI ballI)
  let ?t = "stripLeading whiteSpace s"
  obtain pres where pres: "set pres \<subseteq> set whiteSpace" "s = concat pres @ ?t"
    using stripLeading_removed [of whiteSpace s] by blast
  obtain rs where rs: "set rs \<subseteq> set (map rev whiteSpace)"
    "rev ?t = concat rs @ stripLeading (map rev whiteSpace) (rev ?t)"
    using stripLeading_removed [of "map rev whiteSpace" "rev ?t"] by blast
  have "rev (rev ?t) = rev (concat rs @ stripLeading (map rev whiteSpace) (rev ?t))"
    using rs(2) by simp
  then have t: "?t = trim s @ concat (map rev (rev rs))"
    by (simp add: trim_def rev_concat)
  have posts: "set (map rev (rev rs)) \<subseteq> set whiteSpace"
    using rs(1) by auto
  from pres t have "s = concat pres @ trim s @ concat (map rev (rev rs))"
    by simp
  with pres(1) posts
  show "\<exists>pres posts. set pres \<subseteq> set whiteSpace \<and> set posts \<subseteq> set whiteSpace
       \<and> s = concat pres @ trim s @ concat posts"
    by blast
  fix w
  assume w: "w \<in> set whiteSpace"
  then have ne: "w \<noteq> []" by (rule whiteSpace_nonempty)
  have "\<not> startsWith ?t w"
    using stripLeading_done [OF w ne] .
  with t show "\<not> startsWith (trim s) w"
    using startsWith_append by metis
  have "rev w \<in> set (map rev whiteSpace)" and "rev w \<noteq> []"
    using w ne by simp_all
  then have "\<not> startsWith (stripLeading (map rev whiteSpace) (rev ?t)) (rev w)"
    by (rule stripLeading_done)
  then show "\<not> endsWith (trim s) w"
    by (simp add: endsWith_rev trim_def)
qed

lemma startsWith_fence: "startsWith s ''```json'' \<longleftrightarrow> take 7 s = ''```json''"
  by (simp add: startsWith_def eval_nat_numeral)

lemma endsWith_fence:
  "endsWith s ''```'' \<longleftrightarrow> 3 \<le> length s \<and> drop (length s - 3) s = ''```''"
  by (simp add: endsWith_def eval_nat_numeral)

lemma stripFence_unfold:
  "stripFence content =
     trim (if 3 \<le> length (if take 7 content = ''```json'' then drop 7 content else content)
              \<and> drop (length (if take 7 content = ''```json'' then drop 7 content else content) - 3)
                   (if take 7 content = ''```json'' then drop 7 content else content) = ''```''
           then take (length (if take 7 content = ''```json'' then drop 7 content else content) - 3)
                  (if take 7 content = ''```json'' then drop 7 content else content)
           else (if take 7 content = ''```json'' then drop 7 content else content))"
  unfolding stripFence_def Let_def startsWith_fence endsWith_fence ..

lemma analyzeItem_content:
  assumes "send env AnalyzeInstr (item_text item) p = (Content (Some content), p')"
    and "content \<noteq> []"
  shows "analyzeItem env a0 item acc p =
    (case parseJSON env (stripFence content) of
       None \<Rightarrow>
         acc @ [\<lparr> originalId = item_id item, originalSource = item_source item,
                  originalUrl = item_url item,
                  analysis = JObj [(''error'', JStr ''AI output not valid JSON''),
                                   (''rawOutput'', JStr content)],
                  addr = a0 + length acc \<rparr>]
     | Some parsed \<Rightarrow>
         acc @ [\<lparr> originalId = item_id item, originalSource = item_source item,
                  originalUrl = item_url item, analysis = parsed, addr = a0 + length acc \<rparr>]
           @ (if successLogThrows parsed
              then [\<lparr> originalId = item_id item, originalSource = item_source item,
                      originalUrl = item_url item,
                      analysis = JObj [(''error'', JStr ''AI output not valid JSON''),
                                       (''rawOutput'', JStr content)],
                      addr = a0 + length acc + 1 \<rparr>]
              else []), p')"
  using assms by (simp add: analyzeItem_def push_def failure_def split: option.splits)

text \<open>
  C8. When the language model answers an item with a non-empty content, the handler removes
  a leading \<^verbatim>\<open>```json\<close> (seven characters) when the content starts with it, then a
  trailing \<^verbatim>\<open>```\<close> when what is left ends with it, trims the rest and gives it to the
  parser. What is trimmed is white space only, at both ends, and nothing of it is left at
  either end. When the parser fails, the one result pushed for the item carries the error
  \<^verbatim>\<open>AI output not valid JSON\<close> and, as \<open>rawOutput\<close>, the content as the model returned
  it. When the parser succeeds the parsed value is pushed, and the same failure after it
  when the log of the priority throws.
\<close>

theorem fenced_content_parsed_or_failure:
  assumes "send env AnalyzeInstr (item_text item) p = (Content (Some content), p')"
    and "content \<noteq> []"
  shows
    "(let s1 = (if take 7 content = ''```json'' then drop 7 content else content);
          s2 = (if 3 \<le> length s1 \<and> drop (length s1 - 3) s1 = ''```''
                then take (length s1 - 3) s1 else s1);
          jsonString = trim s2
      in analyzeLoop env a0 (item # rest) acc p =
           analyzeLoop env a0 rest
             (case parseJSON env jsonString of
                None \<Rightarrow>
                  acc @ [\<lparr> originalId = item_id item, originalSource = item_source item,
                           originalUrl = item_url item,
                           analysis = JObj [(''error'', JStr ''AI output not valid JSON''),
                                            (''rawOutput'', JStr content)],
                           addr = a0 + length acc \<rparr>]
              | Some parsed \<Rightarrow>
                  acc @ [\<lparr> originalId = item_id item, originalSource = item_source item,
                           originalUrl = item_url item, analysis = parsed,
                           addr = a0 + length acc \<rparr>]
                    @ (if successLogThrows parsed
                       then [\<lparr> originalId = item_id item, originalSource = item_source item,
                               originalUrl = item_url item,
                               analysis = JObj [(''error'', JStr ''AI output not valid JSON''),
                                                (''rawOutput'', JStr content)],
                               addr = a0 + length acc + 1 \<rparr>]
                       else [])) p'
         \<and> (\<exists>pres posts. set pres \<subseteq> set whiteSpace \<and> set posts \<subseteq> set whiteSpace
               \<and> s2 = concat pres @ jsonString @ concat posts)
         \<and> (\<forall>w \<in> set whiteSpace. \<not> startsWith jsonString w \<and> \<not> endsWith jsonString w))"
proof -
  have step: "analyzeLoop env a0 (item # rest) acc p =
      analyzeLoop env a0 rest (fst (analyzeItem env a0 item acc p)) p'"
    using analyzeItem_content [OF assms, of a0 acc] by simp
  show ?thesis
    unfolding Let_def step analyzeItem_content [OF assms] fst_conv stripFence_unfold
    using trim_strips_white_space by blast
qed

theorem fenced_content_parsed_or_failure_witness:
  "analyzeLoop sampleEnv 1 [oneItem ''Docs are outdated''] []
       [Content (Some ''Sure! Here is the analysis you asked for.'')] =
     ([\<lparr> originalId = (1, 0), originalSource = ''GitHub Issues'', originalUrl = None,
          analysis = JObj [(''error'', JStr ''AI output not valid JSON''),
                           (''rawOutput'', JStr ''Sure! Here is the analysis you asked for.'')],
          addr = 1 \<rparr>], [])
   \<and> analyzeLoop sampleEnv 1 [oneItem ''Docs are outdated''] []
       [Content (Some (''```json'' @ [CHR 0xC2, CHR 0xA0, CHR 0x0A] @ lowReply
                       @ [CHR 0x0B, CHR 0x0A] @ ''```''))] =
     ([\<lparr> originalId = (1, 0), originalSource = ''GitHub Issues'', originalUrl = None,
          analysis = JObj [(''painPoints'', JArr []), (''summary'', JStr ''Nothing to analyze''),
                           (''priority'', JStr ''low'')],
          addr = 1 \<rparr>], [])
   \<and> JSON_parse ([CHR 0xC2, CHR 0xA0, CHR 0x0A] @ lowReply @ [CHR 0x0B, CHR 0x0A]) = None"
proof -
  let ?c1 = "''Sure! Here is the analysis you asked for.''"
  let ?c2 = "''```json'' @ [CHR 0xC2, CHR 0xA0, CHR 0x0A] @ lowReply @ [CHR 0x0B, CHR 0x0A] @ ''```''"
  have h1: "send sampleEnv AnalyzeInstr (item_text (oneItem ''Docs are outdated''))
        [Content (Some ?c1)] = (Content (Some ?c1), [])"
    by (simp add: sampleEnv_def scripted_def)
  have h2: "send sampleEnv AnalyzeInstr (item_text (oneItem ''Docs are outdated''))
        [Content (Some ?c2)] = (Content (Some ?c2), [])"
    by (simp add: sampleEnv_def scripted_def)
  have n1: "?c1 \<noteq> []"
    by simp
  have n2: "?c2 \<noteq> []"
    by simp
  have p1: "parseJSON sampleEnv (stripFence ?c1) = None"
    by code_simp
  have p2: "parseJSON sampleEnv (stripFence ?c2) =
      Some (JObj [(''painPoints'', JArr []), (''summary'', JStr ''Nothing to analyze''),
                  (''priority'', JStr ''low'')])"
    by code_simp
  have l2: "\<not> successLogThrows (JObj [(''painPoints'', JArr []),
      (''summary'', JStr ''Nothing to analyze''), (''priority'', JStr ''low'')])"
    by (simp add: successLogThrows_def)
  have raw: "JSON_parse ([CHR 0xC2, CHR 0xA0, CHR 0x0A] @ lowReply @ [CHR 0x0B, CHR 0x0A]) = None"
    by code_simp
  note a1 = fenced_content_parsed_or_failure [OF h1 n1, of 1 "[]" "[]",
      unfolded Let_def stripFence_unfold [symmetric] p1, THEN conjunct1]
  note a2 = fenced_content_parsed_or_failure [OF h2 n2, of 1 "[]" "[]",
      unfolded Let_def stripFence_unfold [symmetric] p2, THEN conjunct1]
  show ?thesis
    using a1 a2 l2 raw by (simp add: oneItem_def)
qed

section \<open>Results about the ingestion endpoint\<close>

text \<open>
  C2. An ingestion answered with status 200 leaves no cursor and no search behind: for
  every conversation key, whatever the state before the request was, the key is bound in
  neither \<open>userToInsightIndex\<close> nor \<open>userToSearchResults\<close> afterwards.
\<close>

theorem ingest_clears_sessions:
  assumes "ingest env body st p = (resp, st', p')" and "status resp = 200"
  shows "userToInsightIndex st' userKey = None \<and> userToSearchResults st' userKey = None"
  using assms
  by (auto simp: ingest_def Let_def split: sum.splits prod.splits)

theorem ingest_clears_sessions_witness:
  "status (fst (ingest sampleEnv sampleBody sampleState scenarioA)) = 200
   \<and> userToInsightIndex sampleState ''conv-a'' = Some 0
   \<and> userToInsightIndex (fst (snd (ingest sampleEnv sampleBody sampleState scenarioA))) ''conv-a''
       = None
   \<and> userToSearchResults (fst (snd (ingest sampleEnv sampleBody sampleState scenarioA))) ''conv-a''
       = None"
proof -
  have s: "status (fst (ingest sampleEnv sampleBody sampleState scenarioA)) = 200"
    by code_simp
  have e: "ingest sampleEnv sampleBody sampleState scenarioA =
      (fst (ingest sampleEnv sampleBody sampleState scenarioA),
       fst (snd (ingest sampleEnv sampleBody sampleState scenarioA)),
       snd (snd (ingest sampleEnv sampleBody sampleState scenarioA)))"
    by simp
  show ?thesis
    using ingest_clears_sessions [OF e s, of "''conv-a''"] s by (simp add: sampleState_def)
qed

text \<open>
  C10. The endpoint caches the handler's results and clears the cursors and the searches
  before it validates the output. When the input passes its schema and the handler's output
  fails the output schema, the answer is the 500 response carrying the issues and the raw
  output, and nevertheless the rejected results are the latest batch and both session maps
  are empty.
\<close>

theorem invalid_output_still_published:
  assumes "AnalyzeFeedbackInputSchema env body = Inr feedback"
    and "analyzeFeedbackToolHandler env (nextAddr st) feedback p = (analyzedResults, p')"
    and "AnalyzeFeedbackOutputSchema env analyzedResults = Inl issues"
  shows "fst (ingest env body st p) = InvalidOutput issues analyzedResults
       \<and> status (fst (ingest env body st p)) = 500
       \<and> latestAnalysis (fst (snd (ingest env body st p))) = analyzedResults
       \<and> userToInsightIndex (fst (snd (ingest env body st p))) = Map.empty
       \<and> userToSearchResults (fst (snd (ingest env body st p))) = Map.empty"
  using assms by (simp add: ingest_def)

theorem invalid_output_still_published_witness:
  "status (fst (ingest sampleEnv (oneItemBody ''App crashes on start'') sampleState
             [Content (Some urgentReply)])) = 500
   \<and> latestAnalysis (fst (snd (ingest sampleEnv (oneItemBody ''App crashes on start'') sampleState
             [Content (Some urgentReply)]))) =
       [\<lparr> originalId = (1, 0), originalSource = ''GitHub Issues'', originalUrl = None,
           analysis = urgentAnalysis, addr = 1 \<rparr>]
   \<and> userToInsightIndex (fst (snd (ingest sampleEnv (oneItemBody ''App crashes on start'')
             sampleState [Content (Some urgentReply)]))) = Map.empty
   \<and> userToSearchResults (fst (snd (ingest sampleEnv (oneItemBody ''App crashes on start'')
             sampleState [Content (Some urgentReply)]))) = Map.empty"
proof -
  have i: "AnalyzeFeedbackInputSchema sampleEnv (oneItemBody ''App crashes on start'') =
      Inr [oneItem ''App crashes on start'']"
    by code_simp
  have n: "nextAddr sampleState = 1"
    by (simp add: sampleState_def)
  have h: "analyzeFeedbackToolHandler sampleEnv (nextAddr sampleState)
        [oneItem ''App crashes on start''] [Content (Some urgentReply)] =
      ([\<lparr> originalId = (1, 0), originalSource = ''GitHub Issues'', originalUrl = None,
           analysis = urgentAnalysis, addr = 1 \<rparr>], [])"
    unfolding n by code_simp
  have out: "AnalyzeFeedbackOutputSchema sampleEnv
        [\<lparr> originalId = (1, 0), originalSource = ''GitHub Issues'', originalUrl = None,
           analysis = urgentAnalysis, addr = 1 \<rparr>] =
      Inl [[Key ''analyzedResults'', Idx 0, Key ''analysis'']]"
    by code_simp
  show ?thesis
    using invalid_output_still_published [OF i h out] by simp
qed

lemma FeedbackItemSchema_Inl_nonempty: "FeedbackItemSchema env j = Inl es \<Longrightarrow> es \<noteq> []"
  by (auto simp: FeedbackItemSchema_def Let_def split: json.splits if_splits)

lemma feedbackArray_issues:
  assumes "i < length js" and "FeedbackItemSchema env (js ! i) = Inl es" and "e \<in> set es"
  shows "Key ''feedback'' # Idx (k + i) # e \<in> set (fst (feedbackArray env k js))"
  using assms
proof (induction js arbitrary: i k)
  case Nil
  then show ?case by simp
next
  case (Cons j js)
  show ?case
  proof (cases i)
    case 0
    with Cons.prems show ?thesis
      by (auto simp: split: prod.splits sum.splits)
  next
    case (Suc i')
    with Cons.prems have "Key ''feedback'' # Idx (Suc k + i') # e \<in> set (fst (feedbackArray env (Suc k) js))"
      using Cons.IH [of i' "Suc k"] by simp
    with Suc show ?thesis
      by (auto split: prod.splits sum.splits)
  qed
qed

lemma FeedbackItemSchema_Inr_iff:
  "(\<exists>item. FeedbackItemSchema env j = Inr item) \<longleftrightarrow>
   (\<exists>kvs n t s. j = JObj kvs \<and> map_of kvs ''id'' = Some (JNum n)
       \<and> map_of kvs ''text'' = Some (JStr t) \<and> map_of kvs ''source'' = Some (JStr s)
       \<and> (map_of kvs ''url'' = None \<or> (\<exists>u. map_of kvs ''url'' = Some (JStr u) \<and> isURL env u)))"
  by (auto simp: FeedbackItemSchema_def Let_def split: json.splits if_splits option.splits)

text \<open>
  C7, as amended. The item schema asks for \<open>id\<close> a number, \<open>text\<close> a string,
  \<open>source\<close> a string and \<open>url\<close>, when present, a string that is a well-formed URL; it
  does not ask for a non-empty text. When the \<open>feedback\<close> array of a payload holds an item
  that is not of this shape, the endpoint answers 400 with issues, one of which has a path
  into that item, and neither the state (hence the latest batch) nor the language model is
  touched.
\<close>

theorem ill_formed_item_rejects_batch:
  assumes "map_of kvs ''feedback'' = Some (JArr js)" and "i < length js"
    and "\<not> (\<exists>ps n t s. js ! i = JObj ps \<and> map_of ps ''id'' = Some (JNum n)
              \<and> map_of ps ''text'' = Some (JStr t) \<and> map_of ps ''source'' = Some (JStr s)
              \<and> (map_of ps ''url'' = None
                   \<or> (\<exists>u. map_of ps ''url'' = Some (JStr u) \<and> isURL env u)))"
  shows "\<exists>issues path. ingest env (JObj kvs) st p = (BadRequest issues, st, p)
           \<and> Key ''feedback'' # Idx i # path \<in> set issues"
proof -
  have "\<not> (\<exists>item. FeedbackItemSchema env (js ! i) = Inr item)"
    using assms(3) unfolding FeedbackItemSchema_Inr_iff by blast
  then obtain es where es: "FeedbackItemSchema env (js ! i) = Inl es"
    by (cases "FeedbackItemSchema env (js ! i)") auto
  then obtain e where e: "e \<in> set es"
    using FeedbackItemSchema_Inl_nonempty [OF es] by (cases es) auto
  have mem: "Key ''feedback'' # Idx i # e \<in> set (fst (feedbackArray env 0 js))"
    using feedbackArray_issues [OF assms(2) es e, of 0] by simp
  obtain issues items where fa: "feedbackArray env 0 js = (issues, items)"
    by (cases "feedbackArray env 0 js")
  with mem have "issues \<noteq> []" by auto
  then have "AnalyzeFeedbackInputSchema env (JObj kvs) = Inl issues"
    using assms(1) fa by (simp add: AnalyzeFeedbackInputSchema_def split: list.splits)
  then have "ingest env (JObj kvs) st p = (BadRequest issues, st, p)"
    by (simp add: ingest_def)
  with mem fa show ?thesis by auto
qed

theorem ill_formed_item_rejects_batch_witness:
  "fst (ingest sampleEnv missingTextBody sampleState scenarioA)
      = BadRequest [[Key ''feedback'', Idx 1, Key ''text'']]
   \<and> fst (snd (ingest sampleEnv missingTextBody sampleState scenarioA)) = sampleState
   \<and> snd (snd (ingest sampleEnv missingTextBody sampleState scenarioA)) = scenarioA"
proof -
  let ?kvs = "[(''feedback'', JArr
       [JObj [(''id'', JNum (1, 0)), (''text'', JStr ''Bot install fails''),
              (''source'', JStr ''Stack Overflow'')],
        JObj [(''id'', JNum (2, 0)), (''source'', JStr ''GitHub Issues'')]])]"
  let ?js = "[JObj [(''id'', JNum (1, 0)), (''text'', JStr ''Bot install fails''),
              (''source'', JStr ''Stack Overflow'')],
        JObj [(''id'', JNum (2, 0)), (''source'', JStr ''GitHub Issues'')]]"
  have b: "missingTextBody = JObj ?kvs"
    by (simp add: missingTextBody_def)
  have f: "map_of ?kvs ''feedback'' = Some (JArr ?js)"
    by simp
  have l: "1 < length ?js"
    by simp
  have bad: "\<not> (\<exists>ps n t s. ?js ! 1 = JObj ps \<and> map_of ps ''id'' = Some (JNum n)
              \<and> map_of ps ''text'' = Some (JStr t) \<and> map_of ps ''source'' = Some (JStr s)
              \<and> (map_of ps ''url'' = None
                   \<or> (\<exists>u. map_of ps ''url'' = Some (JStr u) \<and> isURL sampleEnv u)))"
    by simp
  obtain issues path where
    r: "ingest sampleEnv (JObj ?kvs) sampleState scenarioA = (BadRequest issues, sampleState, scenarioA)"
    using ill_formed_item_rejects_batch [OF f l bad] by blast
  have d: "fst (ingest sampleEnv missingTextBody sampleState scenarioA)
      = BadRequest [[Key ''feedback'', Idx 1, Key ''text'']]"
    by code_simp
  show ?thesis
    using r d unfolding b by simp
qed

text \<open>
  C7 as written asks for a non-empty text. A payload whose only item has the empty text
  is accepted: the answer is 200 and the latest batch is replaced.
\<close>

theorem empty_text_accepted_counterexample:
  "status (fst (ingest sampleEnv (oneItemBody []) sampleState [Content (Some lowReply)])) = 200
   \<and> latestAnalysis sampleState = [oldResult]
   \<and> latestAnalysis (fst (snd (ingest sampleEnv (oneItemBody []) sampleState
        [Content (Some lowReply)]))) =
       [\<lparr> originalId = (1, 0), originalSource = ''GitHub Issues'', originalUrl = None,
           analysis = JObj [(''painPoints'', JArr []), (''summary'', JStr ''Nothing to analyze''),
                            (''priority'', JStr ''low'')],
           addr = 1 \<rparr>]"
  by code_simp

lemma AnalysisResultSchema_Inl_nonempty: "AnalysisResultSchema env r = Inl es \<Longrightarrow> es \<noteq> []"
  by (auto simp: AnalysisResultSchema_def Let_def split: if_splits)

lemma resultArray_accepts:
  "fst (resultArray env k rs) = [] \<Longrightarrow> r \<in> set rs \<Longrightarrow>
     AnalysisObjectSchema (analysis r) \<or> AnalysisErrorSchema (analysis r)"
proof (induction rs arbitrary: k)
  case Nil
  then show ?case by simp
next
  case (Cons x rs)
  from Cons.prems(1) have tl: "fst (resultArray env (Suc k) rs) = []"
    by (auto split: prod.splits sum.splits)
  from Cons.prems(1) have hd: "\<exists>d. AnalysisResultSchema env x = Inr d"
    by (cases "AnalysisResultSchema env x")
       (auto split: prod.splits dest: AnalysisResultSchema_Inl_nonempty)
  show ?case
  proof (cases "r = x")
    case True
    with hd show ?thesis
      by (auto simp: AnalysisResultSchema_def Let_def split: if_splits)
  next
    case False
    with Cons.prems(2) have "r \<in> set rs" by simp
    then show ?thesis using Cons.IH [OF tl] by simp
  qed
qed

lemma output_schema_accepts:
  assumes "AnalyzeFeedbackOutputSchema env rs = Inr data" and "r \<in> set rs"
  shows "AnalysisObjectSchema (analysis r) \<or> AnalysisErrorSchema (analysis r)"
proof -
  have "fst (resultArray env 0 rs) = []"
    using assms(1) by (auto simp: AnalyzeFeedbackOutputSchema_def split: prod.splits list.splits)
  then show ?thesis using resultArray_accepts assms(2) by blast
qed

lemma object_schema_priority:
  "AnalysisObjectSchema a \<Longrightarrow>
     getProp a ''priority'' \<in> {Some (JStr ''low''), Some (JStr ''medium''), Some (JStr ''high'')}"
proof -
  assume ok: "AnalysisObjectSchema a"
  then obtain kvs where a: "a = JObj kvs"
    by (cases a) (auto simp: AnalysisObjectSchema_def)
  with ok have pr: "(case map_of kvs ''priority'' of
             Some (JStr s) \<Rightarrow> s = ''low'' \<or> s = ''medium'' \<or> s = ''high''
           | _ \<Rightarrow> False)"
    by (simp add: AnalysisObjectSchema_def)
  then obtain v where v: "map_of kvs ''priority'' = Some v"
    by (cases "map_of kvs ''priority''") auto
  with pr obtain s where "v = JStr s" and "s = ''low'' \<or> s = ''medium'' \<or> s = ''high''"
    by (cases v) auto
  with v a show ?thesis by auto
qed

lemma error_schema_has_error: "AnalysisErrorSchema a \<Longrightarrow> getProp a ''error'' \<noteq> None"
  by (cases a) (auto simp: AnalysisErrorSchema_def split: option.splits)

lemma ingest_200_published:
  assumes "ingest env body st p = (resp, st', q)" and "status resp = 200"
  shows "\<exists>data. AnalyzeFeedbackOutputSchema env (latestAnalysis st') = Inr data"
  using assms by (auto simp: ingest_def Let_def split: sum.splits prod.splits)

text \<open>
  C3, as amended. The priority is checked by the output schema of the endpoint and nowhere
  else. After an ingestion answered with status 200, every cached result whose analysis has
  no \<open>error\<close> property has a priority that is one of \<open>low\<close>, \<open>medium\<close>, \<open>high\<close>.
  The handler itself compares no priority: for a non-empty content it pushes the value the
  parser returns, unchanged, as the one result of the item, whenever the log of the
  priority of that value does not throw. A parsed object with another priority is not
  turned into a failure.
\<close>

theorem priority_checked_by_output_schema_only:
  "(ingest env body st p = (resp, st', q) \<and> status resp = 200 \<and> r \<in> set (latestAnalysis st')
      \<and> getProp (analysis r) ''error'' = None
    \<longrightarrow> getProp (analysis r) ''priority''
          \<in> {Some (JStr ''low''), Some (JStr ''medium''), Some (JStr ''high'')})
   \<and> (send env AnalyzeInstr (item_text item) p1 = (Content (Some content), p2)
        \<and> content \<noteq> [] \<and> parseJSON env (stripFence content) = Some parsedAnalysis
        \<and> \<not> successLogThrows parsedAnalysis
      \<longrightarrow> analyzeLoop env a0 (item # rest) acc p1 =
            analyzeLoop env a0 rest
              (acc @ [\<lparr> originalId = item_id item, originalSource = item_source item,
                         originalUrl = item_url item, analysis = parsedAnalysis,
                         addr = a0 + length acc \<rparr>]) p2)"
proof (intro conjI impI)
  assume a: "ingest env body st p = (resp, st', q) \<and> status resp = 200
     \<and> r \<in> set (latestAnalysis st') \<and> getProp (analysis r) ''error'' = None"
  then have i: "ingest env body st p = (resp, st', q)" and s: "status resp = 200"
    by simp_all
  obtain data where "AnalyzeFeedbackOutputSchema env (latestAnalysis st') = Inr data"
    using ingest_200_published [OF i s] by blast
  with a have "AnalysisObjectSchema (analysis r) \<or> AnalysisErrorSchema (analysis r)"
    using output_schema_accepts by blast
  with a have "AnalysisObjectSchema (analysis r)"
    using error_schema_has_error by blast
  then show "getProp (analysis r) ''priority''
          \<in> {Some (JStr ''low''), Some (JStr ''medium''), Some (JStr ''high'')}"
    by (rule object_schema_priority)
next
  assume "send env AnalyzeInstr (item_text item) p1 = (Content (Some content), p2)
        \<and> content \<noteq> [] \<and> parseJSON env (stripFence content) = Some parsedAnalysis
        \<and> \<not> successLogThrows parsedAnalysis"
  then show "analyzeLoop env a0 (item # rest) acc p1 =
            analyzeLoop env a0 rest
              (acc @ [\<lparr> originalId = item_id item, originalSource = item_source item,
                         originalUrl = item_url item, analysis = parsedAnalysis,
                         addr = a0 + length acc \<rparr>]) p2"
    by (simp add: analyzeItem_def push_def)
qed

theorem priority_checked_by_output_schema_only_witness:
  "status (fst (ingest sampleEnv sampleBody sampleState scenarioA)) = 200
   \<and> getProp (analysis (hd (latestAnalysis
        (fst (snd (ingest sampleEnv sampleBody sampleState scenarioA)))))) ''error'' = None
   \<and> getProp (analysis (hd (latestAnalysis
        (fst (snd (ingest sampleEnv sampleBody sampleState scenarioA)))))) ''priority''
        \<in> {Some (JStr ''low''), Some (JStr ''medium''), Some (JStr ''high'')}
   \<and> analyzeLoop sampleEnv 1 [oneItem ''App crashes on start''] [] [Content (Some urgentReply)] =
       ([\<lparr> originalId = (1, 0), originalSource = ''GitHub Issues'', originalUrl = None,
            analysis = urgentAnalysis, addr = 1 \<rparr>], [])"
proof -
  let ?run = "ingest sampleEnv sampleBody sampleState scenarioA"
  let ?r = "hd (latestAnalysis (fst (snd ?run)))"
  let ?kvs = "[(''painPoints'', JArr [JStr ''crash on start'']), (''summary'', JStr ''App crashes''),
           (''priority'', JStr ''urgent'')]"
  have e: "?run = (fst ?run, fst (snd ?run), snd (snd ?run))"
    by simp
  have s: "status (fst ?run) = 200"
    by code_simp
  have m: "?r \<in> set (latestAnalysis (fst (snd ?run)))"
    by code_simp
  have ne: "getProp (analysis ?r) ''error'' = None"
    by code_simp
  have h: "send sampleEnv AnalyzeInstr (item_text (oneItem ''App crashes on start''))
        [Content (Some urgentReply)] = (Content (Some urgentReply), [])"
    by (simp add: sampleEnv_def scripted_def)
  have c: "urgentReply \<noteq> []"
    by (simp add: urgentReply_def)
  have p: "parseJSON sampleEnv (stripFence urgentReply) = Some (JObj ?kvs)"
    by code_simp
  have l: "\<not> successLogThrows (JObj ?kvs)"
    by (simp add: successLogThrows_def)
  note t = priority_checked_by_output_schema_only
    [where env = sampleEnv and body = sampleBody and st = sampleState and p = scenarioA
       and resp = "fst ?run" and st' = "fst (snd ?run)" and q = "snd (snd ?run)" and r = ?r
       and item = "oneItem ''App crashes on start''" and ?p1.0 = "[Content (Some urgentReply)]"
       and content = urgentReply and ?p2.0 = "[]" and parsedAnalysis = "JObj ?kvs" and ?a0.0 = 1
       and rest = "[]" and acc = "[]"]
  from t e s m ne have a: "getProp (analysis ?r) ''priority''
        \<in> {Some (JStr ''low''), Some (JStr ''medium''), Some (JStr ''high'')}"
    by blast
  from t h c p l have b: "analyzeLoop sampleEnv 1 [oneItem ''App crashes on start''] []
        [Content (Some urgentReply)] =
      analyzeLoop sampleEnv 1 []
        ([] @ [\<lparr> originalId = item_id (oneItem ''App crashes on start''),
                  originalSource = item_source (oneItem ''App crashes on start''),
                  originalUrl = item_url (oneItem ''App crashes on start''),
                  analysis = JObj ?kvs, addr = 1 + length ([] :: analysisResultObj list) \<rparr>]) []"
    by blast
  show ?thesis
    using s ne a b by (simp add: oneItem_def urgentAnalysis_def)
qed

text \<open>
  C3 as written fails where the model returns a JSON object with the priority
  \<^verbatim>\<open>urgent\<close>: the cached result carries the parsed object, which has no \<open>error\<close>
  property, is no failure for the error schema either, and has the priority \<open>urgent\<close>.
\<close>

theorem success_priority_counterexample:
  "JSON_parse urgentReply = Some urgentAnalysis
   \<and> latestAnalysis (fst (snd (ingest sampleEnv (oneItemBody ''App crashes on start'') sampleState
             [Content (Some urgentReply)]))) =
       [\<lparr> originalId = (1, 0), originalSource = ''GitHub Issues'', originalUrl = None,
           analysis = urgentAnalysis, addr = 1 \<rparr>]
   \<and> getProp urgentAnalysis ''error'' = None
   \<and> hasError urgentAnalysis = Some False
   \<and> \<not> AnalysisErrorSchema urgentAnalysis
   \<and> getProp urgentAnalysis ''priority'' = Some (JStr ''urgent'')"
  by code_simp

section \<open>Results about the message handler\<close>

lemma matchesKeyword_success:
  "matchesKeyword keyword r = Some True \<Longrightarrow> hasError (analysis r) = Some False"
  by (auto simp: matchesKeyword_def Let_def split: option.splits bool.splits)

lemma filterMatches_sound:
  "filterMatches keyword rs = Some ms \<Longrightarrow> m \<in> set ms \<Longrightarrow>
     m \<in> set rs \<and> hasError (analysis m) = Some False"
proof (induction rs arbitrary: ms)
  case Nil
  then show ?case by simp
next
  case (Cons r rs)
  from Cons.prems(1) obtain b ms' where
    b: "matchesKeyword keyword r = Some b" and
    ms': "filterMatches keyword rs = Some ms'" and
    ms: "ms = (if b then r # ms' else ms')"
    by (auto split: option.splits)
  show ?case
  proof (cases "b \<and> m = r")
    case True
    with b show ?thesis by (simp add: matchesKeyword_success)
  next
    case False
    with ms Cons.prems(2) have "m \<in> set ms'" by (auto split: if_splits)
    then show ?thesis using Cons.IH [OF ms'] by simp
  qed
qed

lemma indexOf_mem:
  "x \<in> set xs \<Longrightarrow> 0 \<le> indexOf xs x \<and> nat (indexOf xs x) < length xs \<and> xs ! nat (indexOf xs x) = x"
proof (induction xs)
  case Nil
  then show ?case by simp
next
  case (Cons y ys)
  show ?case
  proof (cases "y = x")
    case True
    then show ?thesis by simp
  next
    case False
    with Cons.prems have "x \<in> set ys" by simp
    then have ih: "0 \<le> indexOf ys x \<and> nat (indexOf ys x) < length ys \<and> ys ! nat (indexOf ys x) = x"
      by (rule Cons.IH)
    then have "nat (indexOf ys x + 1) = Suc (nat (indexOf ys x))" by (simp add: nat_add_distrib)
    with ih False show ?thesis by simp
  qed
qed

lemma onMessage_search:
  assumes "activityText act = Some t"
    and "startsWith (toLowerCase (trim t)) ''/search_insights''"
  shows "onMessage env act st p =
    searchInsights env (conversationId act) (drop (length ''/search_insights'') (trim t)) st p"
  using assms by (auto simp: onMessage_def Let_def startsWith_def)

lemma searchInsights_state:
  "stateAfter (searchInsights env k rest st p) = st \<or>
   (\<exists>ms. filterMatches (toLowerCase (trim rest)) (latestAnalysis st) = Some ms \<and> ms \<noteq> [] \<and>
      (stateAfter (searchInsights env k rest st p) =
         st \<lparr> userToSearchResults := (userToSearchResults st)(k \<mapsto> \<lparr> matches = ms, idx = 0 \<rparr>) \<rparr>
       \<or> stateAfter (searchInsights env k rest st p) =
         setCursor k (indexOf (latestAnalysis st) (hd ms))
           (st \<lparr> userToSearchResults := (userToSearchResults st)(k \<mapsto> \<lparr> matches = ms, idx = 0 \<rparr>) \<rparr>)))"
  by (auto simp: searchInsights_def finish_def throwTypeError_def Let_def split: option.splits)

lemma match_is_success_index:
  assumes "filterMatches keyword rs = Some ms" and "m \<in> set ms"
  shows "\<exists>j<length rs. rs ! j = m \<and> hasError (analysis (rs ! j)) = Some False"
proof -
  from filterMatches_sound [OF assms] have "m \<in> set rs" and e: "hasError (analysis m) = Some False"
    by simp_all
  then obtain j where "j < length rs" and "rs ! j = m"
    by (auto simp: in_set_conv_nth)
  with e show ?thesis by auto
qed

lemma first_match_cursor:
  assumes "filterMatches keyword rs = Some ms" and "ms \<noteq> []"
  shows "\<exists>j<length rs. indexOf rs (hd ms) = int j \<and> rs ! j = hd ms
           \<and> hasError (analysis (rs ! j)) = Some False"
proof -
  have m: "hd ms \<in> set ms" using assms(2) by simp
  from filterMatches_sound [OF assms(1) m]
  have "hd ms \<in> set rs" and e: "hasError (analysis (hd ms)) = Some False"
    by simp_all
  from indexOf_mem [OF this(1)]
  have "0 \<le> indexOf rs (hd ms)" and "nat (indexOf rs (hd ms)) < length rs"
    and "rs ! nat (indexOf rs (hd ms)) = hd ms"
    by simp_all
  with e show ?thesis
    by (intro exI [of _ "nat (indexOf rs (hd ms))"]) simp
qed

text \<open>
  C4. A search never yields a failure. After a message that starts with
  \<^verbatim>\<open>/search_insights\<close>, whatever the batch, the keyword and the state are, either the
  state is as before, or the search of the conversation is set to a non-empty list of
  matches at position 0, every one of them the result at some index of the batch whose
  analysis has no \<open>error\<close> property. The cursor of the conversation is then as before
  or the index of the first match, and the batch is as before.
\<close>

theorem search_matches_only_successes:
  assumes "activityText act = Some t"
    and "startsWith (toLowerCase (trim t)) ''/search_insights''"
  shows "stateAfter (onMessage env act st p) = st
       \<or> (\<exists>ms. ms \<noteq> []
             \<and> userToSearchResults (stateAfter (onMessage env act st p))
                 = (userToSearchResults st)(conversationId act \<mapsto> \<lparr> matches = ms, idx = 0 \<rparr>)
             \<and> (\<forall>m \<in> set ms. \<exists>j<length (latestAnalysis st).
                     latestAnalysis st ! j = m \<and>
                     hasError (analysis (latestAnalysis st ! j)) = Some False)
             \<and> (userToInsightIndex (stateAfter (onMessage env act st p)) = userToInsightIndex st
                 \<or> (\<exists>j<length (latestAnalysis st).
                       userToInsightIndex (stateAfter (onMessage env act st p))
                         = (userToInsightIndex st)(conversationId act \<mapsto> int j)
                       \<and> latestAnalysis st ! j = hd ms
                       \<and> hasError (analysis (latestAnalysis st ! j)) = Some False))
             \<and> latestAnalysis (stateAfter (onMessage env act st p)) = latestAnalysis st)"
proof -
  let ?rest = "drop (length ''/search_insights'') (trim t)"
  let ?out = "searchInsights env (conversationId act) ?rest st p"
  let ?upd = "\<lambda>ms. st \<lparr> userToSearchResults :=
                  (userToSearchResults st)(conversationId act \<mapsto> \<lparr> matches = ms, idx = 0 \<rparr>) \<rparr>"
  have run: "onMessage env act st p = ?out"
    using assms by (rule onMessage_search)
  from searchInsights_state [of env "conversationId act" ?rest st p]
  consider (same) "stateAfter ?out = st"
    | (found) ms where "filterMatches (toLowerCase (trim ?rest)) (latestAnalysis st) = Some ms"
        and "ms \<noteq> []"
        and "stateAfter ?out = ?upd ms
             \<or> stateAfter ?out =
               setCursor (conversationId act) (indexOf (latestAnalysis st) (hd ms)) (?upd ms)"
    by blast
  then show ?thesis
  proof cases
    case same
    then show ?thesis unfolding run by simp
  next
    case found
    have all: "\<forall>m \<in> set ms. \<exists>j<length (latestAnalysis st).
        latestAnalysis st ! j = m \<and> hasError (analysis (latestAnalysis st ! j)) = Some False"
      using match_is_success_index [OF found(1)] by blast
    obtain j where j: "j < length (latestAnalysis st)"
      "indexOf (latestAnalysis st) (hd ms) = int j"
      "latestAnalysis st ! j = hd ms"
      "hasError (analysis (latestAnalysis st ! j)) = Some False"
      using first_match_cursor [OF found(1) found(2)] by blast
    from found(3) show ?thesis
    proof
      assume s: "stateAfter ?out = ?upd ms"
      have "ms \<noteq> []
             \<and> userToSearchResults (stateAfter ?out)
                 = (userToSearchResults st)(conversationId act \<mapsto> \<lparr> matches = ms, idx = 0 \<rparr>)
             \<and> (\<forall>m \<in> set ms. \<exists>j<length (latestAnalysis st).
                     latestAnalysis st ! j = m \<and>
                     hasError (analysis (latestAnalysis st ! j)) = Some False)
             \<and> userToInsightIndex (stateAfter ?out) = userToInsightIndex st
             \<and> latestAnalysis (stateAfter ?out) = latestAnalysis st"
        using all found(2) unfolding s by simp
      then show ?thesis unfolding run by blast
    next
      assume s: "stateAfter ?out =
               setCursor (conversationId act) (indexOf (latestAnalysis st) (hd ms)) (?upd ms)"
      have "ms \<noteq> []
             \<and> userToSearchResults (stateAfter ?out)
                 = (userToSearchResults st)(conversationId act \<mapsto> \<lparr> matches = ms, idx = 0 \<rparr>)
             \<and> (\<forall>m \<in> set ms. \<exists>j<length (latestAnalysis st).
                     latestAnalysis st ! j = m \<and>
                     hasError (analysis (latestAnalysis st ! j)) = Some False)
             \<and> userToInsightIndex (stateAfter ?out)
                   = (userToInsightIndex st)(conversationId act \<mapsto> int j)
             \<and> latestAnalysis (stateAfter ?out) = latestAnalysis st"
        using all found(2) j(2) unfolding s by (simp add: setCursor_def)
      with j(1,3,4) show ?thesis unfolding run by blast
    qed
  qed
qed

theorem search_matches_only_successes_witness:
  "userToSearchResults navState ''conv-idle'' = None
   \<and> userToSearchResults
        (stateAfter (onMessage sampleEnv (message ''conv-idle'' ''/search_insights Bot'') navState []))
        ''conv-idle'' = Some \<lparr> matches = [batch3 ! 0, batch3 ! 1], idx = 0 \<rparr>
   \<and> userToInsightIndex
        (stateAfter (onMessage sampleEnv (message ''conv-idle'' ''/search_insights Bot'') navState []))
        ''conv-idle'' = Some 0
   \<and> hasError (analysis (batch3 ! 0)) = Some False
   \<and> hasError (analysis (batch3 ! 1)) = Some False
   \<and> hasError (analysis (batch3 ! 2)) = Some True"
proof -
  have h1: "activityText (message ''conv-idle'' ''/search_insights Bot'') = Some ''/search_insights Bot''"
    by (simp add: message_def)
  have h2: "startsWith (toLowerCase (trim ''/search_insights Bot'')) ''/search_insights''"
    by code_simp
  have ev: ?thesis
    by code_simp
  show ?thesis
    using search_matches_only_successes [OF h1 h2, of sampleEnv navState "[]"] ev
    by blast
qed

lemma onMessage_next_insight:
  assumes "activityText act = Some t" and "toLowerCase (trim t) = ''/next_insight''"
  shows "onMessage env act st p = nextInsight env (conversationId act) st p"
  using assms by (simp add: onMessage_def Let_def startsWith_def)

lemma onMessage_next_search_result:
  assumes "activityText act = Some t" and "toLowerCase (trim t) = ''/next_search_result''"
  shows "onMessage env act st p = nextSearchResult env (conversationId act) st p"
  using assms by (simp add: onMessage_def Let_def startsWith_def)

text \<open>
  C5. Exhaustion is asymmetric. \<^verbatim>\<open>/next_insight\<close> with the cursor on the last result
  of a non-empty batch reports that there are no more insights and puts the cursor on 0,
  without an error. \<^verbatim>\<open>/next_search_result\<close> with the search on its last match reports
  that there are no more results and deletes the search of the conversation, so that the
  same command sent again reports that no search is active.
\<close>

theorem advance_exhaustion_asymmetric:
  "(activityText act1 = Some t1 \<and> toLowerCase (trim t1) = ''/next_insight''
      \<and> latestAnalysis st1 \<noteq> []
      \<and> userToInsightIndex st1 (conversationId act1) = Some (int (length (latestAnalysis st1)) - 1)
    \<longrightarrow> sent (onMessage env act1 st1 p1) = [Typing, NoMoreInsights]
        \<and> \<not> failed (onMessage env act1 st1 p1)
        \<and> stateAfter (onMessage env act1 st1 p1) = setCursor (conversationId act1) 0 st1
        \<and> userToInsightIndex (stateAfter (onMessage env act1 st1 p1)) (conversationId act1) = Some 0)
   \<and> (activityText act2 = Some t2 \<and> toLowerCase (trim t2) = ''/next_search_result''
      \<and> userToSearchResults st2 (conversationId act2) = Some s \<and> matches s \<noteq> []
      \<and> idx s = length (matches s) - 1
    \<longrightarrow> sent (onMessage env act2 st2 p2) = [Typing, NoMoreSearchResults]
        \<and> \<not> failed (onMessage env act2 st2 p2)
        \<and> userToSearchResults (stateAfter (onMessage env act2 st2 p2)) (conversationId act2) = None
        \<and> sent (onMessage env act2 (stateAfter (onMessage env act2 st2 p2)) p3)
            = [Typing, NoActiveSearch])"
proof (intro conjI impI)
  assume a: "activityText act1 = Some t1 \<and> toLowerCase (trim t1) = ''/next_insight''
      \<and> latestAnalysis st1 \<noteq> []
      \<and> userToInsightIndex st1 (conversationId act1) = Some (int (length (latestAnalysis st1)) - 1)"
  then have "activityText act1 = Some t1" and "toLowerCase (trim t1) = ''/next_insight''"
    by simp_all
  then have run: "onMessage env act1 st1 p1 = nextInsight env (conversationId act1) st1 p1"
    by (rule onMessage_next_insight)
  from a have out: "nextInsight env (conversationId act1) st1 p1 =
      finish [NoMoreInsights] (setCursor (conversationId act1) 0 st1) p1"
    by (simp add: nextInsight_def Let_def)
  show "sent (onMessage env act1 st1 p1) = [Typing, NoMoreInsights]"
    unfolding run out by (simp add: finish_def)
  show "\<not> failed (onMessage env act1 st1 p1)"
    unfolding run out by (simp add: finish_def)
  show "stateAfter (onMessage env act1 st1 p1) = setCursor (conversationId act1) 0 st1"
    unfolding run out by (simp add: finish_def)
  show "userToInsightIndex (stateAfter (onMessage env act1 st1 p1)) (conversationId act1) = Some 0"
    unfolding run out by (simp add: finish_def setCursor_def)
next
  assume a: "activityText act2 = Some t2 \<and> toLowerCase (trim t2) = ''/next_search_result''
      \<and> userToSearchResults st2 (conversationId act2) = Some s \<and> matches s \<noteq> []
      \<and> idx s = length (matches s) - 1"
  then have "activityText act2 = Some t2" and "toLowerCase (trim t2) = ''/next_search_result''"
    by simp_all
  then have run: "\<And>st p. onMessage env act2 st p = nextSearchResult env (conversationId act2) st p"
    by (rule onMessage_next_search_result)
  from a have len: "length (matches s) \<le> idx s + 1"
    by (cases "matches s") auto
  let ?st = "st2 \<lparr> userToSearchResults := (userToSearchResults st2)(conversationId act2 := None) \<rparr>"
  from a len have out: "nextSearchResult env (conversationId act2) st2 p2 =
      finish [NoMoreSearchResults] ?st p2"
    by (simp add: nextSearchResult_def Let_def)
  show "sent (onMessage env act2 st2 p2) = [Typing, NoMoreSearchResults]"
    unfolding run out by (simp add: finish_def)
  show "\<not> failed (onMessage env act2 st2 p2)"
    unfolding run out by (simp add: finish_def)
  show "userToSearchResults (stateAfter (onMessage env act2 st2 p2)) (conversationId act2) = None"
    unfolding run out by (simp add: finish_def)
  show "sent (onMessage env act2 (stateAfter (onMessage env act2 st2 p2)) p3)
            = [Typing, NoActiveSearch]"
    unfolding run out by (simp add: finish_def nextSearchResult_def)
qed

theorem advance_exhaustion_asymmetric_witness:
  "sent (onMessage sampleEnv (message ''conv-view'' ''/next_insight'') navState [])
      = [Typing, NoMoreInsights]
   \<and> userToInsightIndex navState ''conv-view'' = Some 2
   \<and> userToInsightIndex
        (stateAfter (onMessage sampleEnv (message ''conv-view'' ''/next_insight'') navState []))
        ''conv-view'' = Some 0
   \<and> sent (onMessage sampleEnv (message ''conv-search'' ''/next_search_result'') navState [])
      = [Typing, NoMoreSearchResults]
   \<and> userToSearchResults
        (stateAfter (onMessage sampleEnv (message ''conv-search'' ''/next_search_result'') navState []))
        ''conv-search'' = None
   \<and> sent (onMessage sampleEnv (message ''conv-search'' ''/next_search_result'')
        (stateAfter (onMessage sampleEnv (message ''conv-search'' ''/next_search_result'') navState []))
        [])
      = [Typing, NoActiveSearch]"
proof -
  let ?a1 = "message ''conv-view'' ''/next_insight''"
  let ?a2 = "message ''conv-search'' ''/next_search_result''"
  let ?s = "\<lparr> matches = [batch3 ! 0, batch3 ! 1], idx = 1 \<rparr>"
  have c1: "conversationId ?a1 = ''conv-view''" and c2: "conversationId ?a2 = ''conv-search''"
    by (simp_all add: message_def)
  have h1: "activityText ?a1 = Some ''/next_insight'' \<and> toLowerCase (trim ''/next_insight'') = ''/next_insight''
      \<and> latestAnalysis navState \<noteq> []
      \<and> userToInsightIndex navState (conversationId ?a1) = Some (int (length (latestAnalysis navState)) - 1)"
    unfolding c1 by (intro conjI) (code_simp+)
  have h2: "activityText ?a2 = Some ''/next_search_result''
      \<and> toLowerCase (trim ''/next_search_result'') = ''/next_search_result''
      \<and> userToSearchResults navState (conversationId ?a2) = Some ?s \<and> matches ?s \<noteq> []
      \<and> idx ?s = length (matches ?s) - 1"
    unfolding c2 by (intro conjI) (code_simp+)
  have u: "userToInsightIndex navState ''conv-view'' = Some 2"
    by (simp add: navState_def)
  note t = advance_exhaustion_asymmetric
    [where ?act1.0 = ?a1 and ?t1.0 = "''/next_insight''" and ?st1.0 = navState and env = sampleEnv
       and ?p1.0 = "[]" and ?act2.0 = ?a2 and ?t2.0 = "''/next_search_result''" and ?st2.0 = navState
       and s = ?s and ?p2.0 = "[]" and ?p3.0 = "[]"]
  show ?thesis
    using t h1 h2 u unfolding c1 c2 by blast
qed









text \<open>
  C9, as amended. In the handler with the navigation commands, a text that is none of
  \<^verbatim>\<open>/about\<close>, \<^verbatim>\<open>/help\<close>, \<^verbatim>\<open>/latest_insight\<close>, \<^verbatim>\<open>/next_search_result\<close>,
  \<^verbatim>\<open>/show_insights\<close>, \<^verbatim>\<open>/next_insight\<close> and starts with neither
  \<^verbatim>\<open>/search_insights\<close> nor \<^verbatim>\<open>/ask_about_current\<close> is answered with the echo and
  the list of commands: the language model is not called, and the batch, the cursors and
  the searches stay as they are. In the first version of the handler, a text other than
  \<^verbatim>\<open>hello\<close> and \<^verbatim>\<open>/show_insights\<close> is sent to the language model as a
  conversation, and the reply of the model is what the user gets.
\<close>

theorem unrecognised_text_is_echoed:
  "((case activityText act of Some t \<Rightarrow> toLowerCase (trim t) | None \<Rightarrow> [])
        \<notin> {''/about'', ''/help'', ''/latest_insight'', ''/next_search_result'',
            ''/show_insights'', ''/next_insight''}
      \<and> \<not> startsWith (case activityText act of Some t \<Rightarrow> toLowerCase (trim t) | None \<Rightarrow> [])
             ''/search_insights''
      \<and> \<not> startsWith (case activityText act of Some t \<Rightarrow> toLowerCase (trim t) | None \<Rightarrow> [])
             ''/ask_about_current''
    \<longrightarrow> sent (onMessage env act st p) = [Typing, Echo (activityText act)]
        \<and> \<not> failed (onMessage env act st p)
        \<and> modelAfter (onMessage env act st p) = p
        \<and> latestAnalysis (stateAfter (onMessage env act st p)) = latestAnalysis st
        \<and> userToInsightIndex (stateAfter (onMessage env act st p)) = userToInsightIndex st
        \<and> userToSearchResults (stateAfter (onMessage env act st p)) = userToSearchResults st)
   \<and> (map_option (\<lambda>t. toLowerCase (trim t)) (activityText act1)
        \<notin> {Some ''hello'', Some ''/show_insights''}
    \<longrightarrow> modelAfter (onMessage1 env act1 st1 p1)
          = snd (send env ConverseInstr (case activityText act1 of Some t \<Rightarrow> t | None \<Rightarrow> []) p1)
        \<and> sent (onMessage1 env act1 st1 p1)
          = [Typing,
             case fst (send env ConverseInstr
                        (case activityText act1 of Some t \<Rightarrow> t | None \<Rightarrow> []) p1) of
               Content None \<Rightarrow> HereToHelp
             | Content (Some content) \<Rightarrow> if content \<noteq> [] then Answer (trim content) else HereToHelp
             | Rejected m \<Rightarrow> CouldNotConverse]
        \<and> latestAnalysis1 (stateAfter (onMessage1 env act1 st1 p1)) = latestAnalysis1 st1)"
proof (intro conjI impI)
  assume a: "(case activityText act of Some t \<Rightarrow> toLowerCase (trim t) | None \<Rightarrow> [])
        \<notin> {''/about'', ''/help'', ''/latest_insight'', ''/next_search_result'',
            ''/show_insights'', ''/next_insight''}
      \<and> \<not> startsWith (case activityText act of Some t \<Rightarrow> toLowerCase (trim t) | None \<Rightarrow> [])
             ''/search_insights''
      \<and> \<not> startsWith (case activityText act of Some t \<Rightarrow> toLowerCase (trim t) | None \<Rightarrow> [])
             ''/ask_about_current''"
  have l: "(case map_option trim (activityText act) of Some t \<Rightarrow> toLowerCase t | None \<Rightarrow> [])
      = (case activityText act of Some t \<Rightarrow> toLowerCase (trim t) | None \<Rightarrow> [])"
    by (cases "activityText act") simp_all
  from a have run: "onMessage env act st p = echoDefault act st p"
    unfolding onMessage_def Let_def l by simp
  show "sent (onMessage env act st p) = [Typing, Echo (activityText act)]"
    unfolding run by (simp add: echoDefault_def finish_def)
  show "\<not> failed (onMessage env act st p)"
    unfolding run by (simp add: echoDefault_def finish_def)
  show "modelAfter (onMessage env act st p) = p"
    unfolding run by (simp add: echoDefault_def finish_def)
  show "latestAnalysis (stateAfter (onMessage env act st p)) = latestAnalysis st"
    unfolding run by (simp add: echoDefault_def finish_def)
  show "userToInsightIndex (stateAfter (onMessage env act st p)) = userToInsightIndex st"
    unfolding run by (simp add: echoDefault_def finish_def)
  show "userToSearchResults (stateAfter (onMessage env act st p)) = userToSearchResults st"
    unfolding run by (simp add: echoDefault_def finish_def)
next
  assume b: "map_option (\<lambda>t. toLowerCase (trim t)) (activityText act1)
        \<notin> {Some ''hello'', Some ''/show_insights''}"
  obtain r q where s: "send env ConverseInstr
      (case activityText act1 of Some t \<Rightarrow> t | None \<Rightarrow> []) p1 = (r, q)"
    by (cases "send env ConverseInstr (case activityText act1 of Some t \<Rightarrow> t | None \<Rightarrow> []) p1")
  from b s show "modelAfter (onMessage1 env act1 st1 p1)
          = snd (send env ConverseInstr (case activityText act1 of Some t \<Rightarrow> t | None \<Rightarrow> []) p1)"
    by (auto simp: onMessage1_def Let_def finish_def split: reply.splits option.splits)
  from b s show "sent (onMessage1 env act1 st1 p1)
          = [Typing,
             case fst (send env ConverseInstr
                        (case activityText act1 of Some t \<Rightarrow> t | None \<Rightarrow> []) p1) of
               Content None \<Rightarrow> HereToHelp
             | Content (Some content) \<Rightarrow> if content \<noteq> [] then Answer (trim content) else HereToHelp
             | Rejected m \<Rightarrow> CouldNotConverse]"
    by (auto simp: onMessage1_def Let_def finish_def split: reply.splits option.splits)
  from b s show "latestAnalysis1 (stateAfter (onMessage1 env act1 st1 p1)) = latestAnalysis1 st1"
    by (auto simp: onMessage1_def Let_def finish_def split: reply.splits option.splits)
qed

theorem unrecognised_text_is_echoed_witness:
  "sent (onMessage sampleEnv (message ''conv-view'' ''What hurts developers most?'') navState
           [Content (Some ''Mostly the manifest.'')])
      = [Typing, Echo (Some ''What hurts developers most?'')]
   \<and> userToInsightIndex
        (stateAfter (onMessage sampleEnv (message ''conv-view'' ''What hurts developers most?'')
           navState [Content (Some ''Mostly the manifest.'')])) = userToInsightIndex navState
   \<and> userToSearchResults
        (stateAfter (onMessage sampleEnv (message ''conv-view'' ''What hurts developers most?'')
           navState [Content (Some ''Mostly the manifest.'')])) = userToSearchResults navState
   \<and> sent (onMessage1 sampleEnv (message ''conv-view'' ''What hurts developers most?'') sampleState1
           [Content (Some ''Mostly the manifest.'')])
      = [Typing, Answer ''Mostly the manifest.'']
   \<and> modelAfter (onMessage1 sampleEnv (message ''conv-view'' ''What hurts developers most?'')
           sampleState1 [Content (Some ''Mostly the manifest.'')]) = []"
proof -
  let ?a = "message ''conv-view'' ''What hurts developers most?''"
  have t: "activityText ?a = Some ''What hurts developers most?''"
    by (simp add: message_def)
  have h1: "(case activityText ?a of Some t \<Rightarrow> toLowerCase (trim t) | None \<Rightarrow> [])
        \<notin> {''/about'', ''/help'', ''/latest_insight'', ''/next_search_result'',
            ''/show_insights'', ''/next_insight''}
      \<and> \<not> startsWith (case activityText ?a of Some t \<Rightarrow> toLowerCase (trim t) | None \<Rightarrow> [])
             ''/search_insights''
      \<and> \<not> startsWith (case activityText ?a of Some t \<Rightarrow> toLowerCase (trim t) | None \<Rightarrow> [])
             ''/ask_about_current''"
    unfolding t by code_simp
  have h2: "map_option (\<lambda>t. toLowerCase (trim t)) (activityText ?a)
        \<notin> {Some ''hello'', Some ''/show_insights''}"
    unfolding t by code_simp
  have s: "send sampleEnv ConverseInstr ''What hurts developers most?''
        [Content (Some ''Mostly the manifest.'')] = (Content (Some ''Mostly the manifest.''), [])"
    by (simp add: sampleEnv_def scripted_def)
  have tr: "trim ''Mostly the manifest.'' = ''Mostly the manifest.''"
    by code_simp
  note th = unrecognised_text_is_echoed
    [where act = ?a and env = sampleEnv and st = navState
       and p = "[Content (Some ''Mostly the manifest.'')]" and ?act1.0 = ?a and ?st1.0 = sampleState1
       and ?p1.0 = "[Content (Some ''Mostly the manifest.'')]"]
  show ?thesis
    using th h1 h2 by (simp add: t s tr)
qed

text \<open>
  C9 as written expects a call to the language model. With the navigation commands
  the free text is echoed and the script of the model is untouched; in the first version
  \<^verbatim>\<open>Hello\<close>, which is none of the eight commands, gets the greeting and again the
  script is untouched.
\<close>

theorem unrecognised_text_not_routed_counterexample:
  "sent (onMessage sampleEnv (message ''conv-view'' ''What hurts developers most?'') navState
           [Content (Some ''Mostly the manifest.'')])
      = [Typing, Echo (Some ''What hurts developers most?'')]
   \<and> modelAfter (onMessage sampleEnv (message ''conv-view'' ''What hurts developers most?'') navState
           [Content (Some ''Mostly the manifest.'')])
      = [Content (Some ''Mostly the manifest.'')]
   \<and> sent (onMessage1 sampleEnv (message ''conv-view'' ''Hello'') sampleState1
           [Content (Some ''Mostly the manifest.'')])
      = [Typing, Greeting]
   \<and> modelAfter (onMessage1 sampleEnv (message ''conv-view'' ''Hello'') sampleState1
           [Content (Some ''Mostly the manifest.'')])
      = [Content (Some ''Mostly the manifest.'')]"
  by code_simp

end
